theory Spec2Isabelle
  imports Complex_Main "HOL-Library.AList"
begin

section \<open>The avatar gesture engine of \<^verbatim>\<open>src/avatar/avatar_3d.py\<close>\<close>

text \<open>
  Python floats are modelled as \<^typ>\<open>real\<close> numbers, \<^verbatim>\<open>math.sin\<close> and \<^verbatim>\<open>math.pi\<close> as
  \<^const>\<open>sin\<close> and \<^const>\<open>pi\<close>, and no theorem below rests on the value of a sine. Rounding
  is modelled where a claim depends on it, in the time scaling of a gesture, which is
  given in double precision as well. Strings are ASCII strings.

  \<^verbatim>\<open>Joint\<close> objects are mutable and shared, so they live in an explicit store: an address is
  an index into the list of all allocated joints, a field write is a list update. A
  \<^verbatim>\<open>Dict[str, Joint]\<close> is an association list from names to addresses in insertion order;
  no dictionary of the module is changed after it is built, so a dictionary is a value and
  \<^verbatim>\<open>dict.copy()\<close>, which copies the references and not the joints, is the identity on it.
\<close>

subsection \<open>Data model\<close>

type_synonym vec3 = "real \<times> real \<times> real"

record Joint =
  name :: string
  position :: vec3
  rotation :: vec3
  parent :: "string option"
  children :: "string list"

type_synonym addr = nat
type_synonym store = "Joint list"
type_synonym jdict = "(string \<times> addr) list"

record GestureFrame =
  timestamp :: real
  joints :: jdict

datatype py_error = KeyError | IndexError | ZeroDivisionError

text \<open>The dataclass constructor with \<^verbatim>\<open>__post_init__\<close>: absent children become the empty list.\<close>

definition new_Joint ::
  "string \<Rightarrow> vec3 \<Rightarrow> vec3 \<Rightarrow> string option \<Rightarrow> string list option \<Rightarrow> Joint" where
  "new_Joint n p r par ch =
     \<lparr>name = n, position = p, rotation = r, parent = par,
      children = (case ch of None \<Rightarrow> [] | Some c \<Rightarrow> c)\<rparr>"

text \<open>\<^verbatim>\<open>d[k]\<close>: a missing key raises \<^verbatim>\<open>KeyError\<close>.\<close>

definition dict_get :: "('k \<times> 'v) list \<Rightarrow> 'k \<Rightarrow> py_error + 'v" where
  "dict_get d k = (case map_of d k of None \<Rightarrow> Inl KeyError | Some v \<Rightarrow> Inr v)"

subsection \<open>The skeleton\<close>

text \<open>The dictionary literal of \<^verbatim>\<open>_create_skeleton\<close>, entries in source order.\<close>

definition skeleton_literal :: "(string \<times> Joint) list" where
  "skeleton_literal =
    [(''head'', new_Joint ''head'' (0, 1.8, 0) (0, 0, 0) None None),
     (''neck'', new_Joint ''neck'' (0, 1.6, 0) (0, 0, 0) None (Some [''head''])),
     (''left_shoulder'',
        new_Joint ''left_shoulder'' (-0.3, 1.5, 0) (0, 0, 0) None (Some [''left_elbow''])),
     (''left_elbow'',
        new_Joint ''left_elbow'' (-0.5, 1.2, 0) (0, 0, 0) (Some ''left_shoulder'')
          (Some [''left_wrist''])),
     (''left_wrist'',
        new_Joint ''left_wrist'' (-0.7, 0.9, 0) (0, 0, 0) (Some ''left_elbow'')
          (Some [''left_hand''])),
     (''left_hand'',
        new_Joint ''left_hand'' (-0.8, 0.7, 0) (0, 0, 0) (Some ''left_wrist'') None),
     (''right_shoulder'',
        new_Joint ''right_shoulder'' (0.3, 1.5, 0) (0, 0, 0) None (Some [''right_elbow''])),
     (''right_elbow'',
        new_Joint ''right_elbow'' (0.5, 1.2, 0) (0, 0, 0) (Some ''right_shoulder'')
          (Some [''right_wrist''])),
     (''right_wrist'',
        new_Joint ''right_wrist'' (0.7, 0.9, 0) (0, 0, 0) (Some ''right_elbow'')
          (Some [''right_hand''])),
     (''right_hand'',
        new_Joint ''right_hand'' (0.8, 0.7, 0) (0, 0, 0) (Some ''right_wrist'') None),
     (''spine'',
        new_Joint ''spine'' (0, 1.3, 0) (0, 0, 0) None
          (Some [''left_shoulder'', ''right_shoulder'', ''neck''])),
     (''hip'', new_Joint ''hip'' (0, 0.9, 0) (0, 0, 0) None (Some [''spine'']))]"

text \<open>
  The loop \<^verbatim>\<open>for joint_name, joint in skeleton.items()\<close>: a joint with a (non-empty) parent
  name is appended to the children of that parent, in place.
\<close>

fun set_parents :: "jdict \<Rightarrow> (string \<times> addr) list \<Rightarrow> store \<Rightarrow> py_error + store" where
  "set_parents skeleton [] h = Inr h"
| "set_parents skeleton ((joint_name, a) # items) h =
     (case parent (h ! a) of
        None \<Rightarrow> set_parents skeleton items h
      | Some p \<Rightarrow>
          if p = [] then set_parents skeleton items h
          else (case dict_get skeleton p of
                  Inl e \<Rightarrow> Inl e
                | Inr pa \<Rightarrow>
                    set_parents skeleton items
                      (h[pa := (h ! pa)\<lparr>children := children (h ! pa) @ [joint_name]\<rparr>])))"

text \<open>
  \<^verbatim>\<open>_create_skeleton\<close>: the twelve joints are allocated in the order of the literal, at
  the addresses 0 to 11 of a fresh store.
\<close>

definition create_skeleton :: "py_error + (jdict \<times> store)" where
  "create_skeleton =
     (let skeleton = zip (map fst skeleton_literal) [0 ..< length skeleton_literal];
          h = map snd skeleton_literal
      in case set_parents skeleton skeleton h of
           Inl e \<Rightarrow> Inl e
         | Inr h' \<Rightarrow> Inr (skeleton, h'))"

subsection \<open>Sequencing of fallible steps, loops, field writes\<close>

definition then_do :: "py_error + 'a \<Rightarrow> ('a \<Rightarrow> py_error + 'b) \<Rightarrow> py_error + 'b" where
  "then_do m f = (case m of Inl e \<Rightarrow> Inl e | Inr x \<Rightarrow> f x)"

text \<open>A \<^verbatim>\<open>for\<close> loop over a sequence: the body maps the loop state to the next one, or raises.\<close>

fun for_each :: "'i list \<Rightarrow> ('i \<Rightarrow> 's \<Rightarrow> py_error + 's) \<Rightarrow> 's \<Rightarrow> py_error + 's" where
  "for_each [] body s = Inr s"
| "for_each (i # rest) body s =
     (case body i s of Inl e \<Rightarrow> Inl e | Inr s' \<Rightarrow> for_each rest body s')"

text \<open>
  \<^verbatim>\<open>d[k].rotation = v\<close> and \<^verbatim>\<open>d[k].position = v\<close>: a field write to the joint object the
  dictionary \<open>d\<close> refers to under \<open>k\<close>; the lookup raises on a missing key.
\<close>

definition write_rotation :: "addr \<Rightarrow> vec3 \<Rightarrow> store \<Rightarrow> store" where
  "write_rotation a v h = h[a := (h ! a)\<lparr>rotation := v\<rparr>]"

definition write_position :: "addr \<Rightarrow> vec3 \<Rightarrow> store \<Rightarrow> store" where
  "write_position a v h = h[a := (h ! a)\<lparr>position := v\<rparr>]"

definition set_rotation :: "jdict \<Rightarrow> string \<Rightarrow> vec3 \<Rightarrow> store \<Rightarrow> py_error + store" where
  "set_rotation d k v h =
     (case dict_get d k of Inl e \<Rightarrow> Inl e | Inr a \<Rightarrow> Inr (write_rotation a v h))"

definition set_position :: "jdict \<Rightarrow> string \<Rightarrow> vec3 \<Rightarrow> store \<Rightarrow> py_error + store" where
  "set_position d k v h =
     (case dict_get d k of Inl e \<Rightarrow> Inl e | Inr a \<Rightarrow> Inr (write_position a v h))"

subsection \<open>The gesture builders\<close>

text \<open>
  Each builder takes \<^verbatim>\<open>self.skeleton\<close> and the store, and returns its frames and the store
  its writes leave. \<^verbatim>\<open>self.skeleton.copy()\<close> is the dictionary itself (see above).
\<close>

definition create_hello_gesture ::
  "jdict \<Rightarrow> store \<Rightarrow> py_error + (GestureFrame list \<times> store)" where
  "create_hello_gesture skeleton h0 =
     (let initial_joints = skeleton;
          frames0 = [\<lparr>timestamp = 0.0, joints = initial_joints\<rparr>]
      in for_each [0 ..< 10] (\<lambda>i (frames, h).
           let t = real i / 9.0;
               joints = skeleton;
               wave_angle = sin (t * pi * 2) * 0.3
           in then_do (set_rotation joints ''right_wrist'' (0, 0, wave_angle) h) (\<lambda>h.
              then_do (set_rotation joints ''right_hand'' (0, 0, wave_angle) h) (\<lambda>h.
              Inr (frames @ [\<lparr>timestamp = t * 2.0, joints = joints\<rparr>], h))))
         (frames0, h0))"

definition create_thank_you_gesture ::
  "jdict \<Rightarrow> store \<Rightarrow> py_error + (GestureFrame list \<times> store)" where
  "create_thank_you_gesture skeleton h0 =
     (let initial_joints = skeleton;
          frames0 = [\<lparr>timestamp = 0.0, joints = initial_joints\<rparr>]
      in for_each [0 ..< 15] (\<lambda>i (frames, h).
           let t = real i / 14.0;
               joints = skeleton;
               chest_y = 1.2 + t * 0.3
           in then_do (set_position joints ''left_hand'' (-0.2, chest_y, 0.1) h) (\<lambda>h.
              then_do (set_position joints ''right_hand'' (0.2, chest_y, 0.1) h) (\<lambda>h.
              Inr (frames @ [\<lparr>timestamp = t * 1.5, joints = joints\<rparr>], h))))
         (frames0, h0))"

definition create_yes_gesture ::
  "jdict \<Rightarrow> store \<Rightarrow> py_error + (GestureFrame list \<times> store)" where
  "create_yes_gesture skeleton h0 =
     (let initial_joints = skeleton;
          frames0 = [\<lparr>timestamp = 0.0, joints = initial_joints\<rparr>]
      in for_each [0 ..< 8] (\<lambda>i (frames, h).
           let t = real i / 7.0;
               joints = skeleton;
               nod_angle = sin (t * pi) * 0.2
           in then_do (set_rotation joints ''head'' (nod_angle, 0, 0) h) (\<lambda>h.
              then_do (set_rotation joints ''neck'' (nod_angle, 0, 0) h) (\<lambda>h.
              Inr (frames @ [\<lparr>timestamp = t * 1.0, joints = joints\<rparr>], h))))
         (frames0, h0))"

definition create_no_gesture ::
  "jdict \<Rightarrow> store \<Rightarrow> py_error + (GestureFrame list \<times> store)" where
  "create_no_gesture skeleton h0 =
     (let initial_joints = skeleton;
          frames0 = [\<lparr>timestamp = 0.0, joints = initial_joints\<rparr>]
      in for_each [0 ..< 12] (\<lambda>i (frames, h).
           let t = real i / 11.0;
               joints = skeleton;
               shake_angle = sin (t * pi * 4) * 0.3
           in then_do (set_rotation joints ''head'' (0, 0, shake_angle) h) (\<lambda>h.
              then_do (set_rotation joints ''neck'' (0, 0, shake_angle) h) (\<lambda>h.
              Inr (frames @ [\<lparr>timestamp = t * 1.2, joints = joints\<rparr>], h))))
         (frames0, h0))"

definition create_good_gesture ::
  "jdict \<Rightarrow> store \<Rightarrow> py_error + (GestureFrame list \<times> store)" where
  "create_good_gesture skeleton h0 =
     (let initial_joints = skeleton;
          frames0 = [\<lparr>timestamp = 0.0, joints = initial_joints\<rparr>]
      in for_each [0 ..< 10] (\<lambda>i (frames, h).
           let t = real i / 9.0;
               joints = skeleton
           in then_do (set_rotation joints ''right_hand'' (0, 0, 1.57) h) (\<lambda>h.
              then_do (set_rotation joints ''right_wrist'' (0, 0, 0.3) h) (\<lambda>h.
              Inr (frames @ [\<lparr>timestamp = t * 1.0, joints = joints\<rparr>], h))))
         (frames0, h0))"

definition create_bad_gesture ::
  "jdict \<Rightarrow> store \<Rightarrow> py_error + (GestureFrame list \<times> store)" where
  "create_bad_gesture skeleton h0 =
     (let initial_joints = skeleton;
          frames0 = [\<lparr>timestamp = 0.0, joints = initial_joints\<rparr>]
      in for_each [0 ..< 10] (\<lambda>i (frames, h).
           let t = real i / 9.0;
               joints = skeleton
           in then_do (set_rotation joints ''right_hand'' (0, 0, -1.57) h) (\<lambda>h.
              then_do (set_rotation joints ''right_wrist'' (0, 0, -0.3) h) (\<lambda>h.
              Inr (frames @ [\<lparr>timestamp = t * 1.0, joints = joints\<rparr>], h))))
         (frames0, h0))"

definition create_water_gesture ::
  "jdict \<Rightarrow> store \<Rightarrow> py_error + (GestureFrame list \<times> store)" where
  "create_water_gesture skeleton h0 =
     (let initial_joints = skeleton;
          frames0 = [\<lparr>timestamp = 0.0, joints = initial_joints\<rparr>]
      in for_each [0 ..< 15] (\<lambda>i (frames, h).
           let t = real i / 14.0;
               joints = skeleton;
               mouth_y = 1.6 - t * 0.4
           in then_do (set_position joints ''right_hand'' (0.1, mouth_y, 0.2) h) (\<lambda>h.
              then_do (set_rotation joints ''right_elbow'' (0, 0, t * 0.5) h) (\<lambda>h.
              Inr (frames @ [\<lparr>timestamp = t * 2.0, joints = joints\<rparr>], h))))
         (frames0, h0))"

definition create_food_gesture ::
  "jdict \<Rightarrow> store \<Rightarrow> py_error + (GestureFrame list \<times> store)" where
  "create_food_gesture skeleton h0 =
     (let initial_joints = skeleton;
          frames0 = [\<lparr>timestamp = 0.0, joints = initial_joints\<rparr>]
      in for_each [0 ..< 12] (\<lambda>i (frames, h).
           let t = real i / 11.0;
               joints = skeleton;
               mouth_y = 1.6 - \<bar>t - 0.5\<bar> * 0.8
           in then_do (set_position joints ''right_hand'' (0.1, mouth_y, 0.2) h) (\<lambda>h.
              Inr (frames @ [\<lparr>timestamp = t * 1.5, joints = joints\<rparr>], h)))
         (frames0, h0))"

definition create_home_gesture ::
  "jdict \<Rightarrow> store \<Rightarrow> py_error + (GestureFrame list \<times> store)" where
  "create_home_gesture skeleton h0 =
     (let initial_joints = skeleton;
          frames0 = [\<lparr>timestamp = 0.0, joints = initial_joints\<rparr>]
      in for_each [0 ..< 20] (\<lambda>i (frames, h).
           let t = real i / 19.0;
               joints = skeleton
           in then_do
                (if t < 0.5 then
                   let height = t * 0.4
                   in then_do (set_position joints ''left_hand'' (-0.3, 1.2 + height, 0.1) h)
                        (set_position joints ''right_hand'' (0.3, 1.2 + height, 0.1))
                 else
                   then_do (set_position joints ''left_hand'' (-0.3, 1.4, 0.1) h)
                     (set_position joints ''right_hand'' (0.3, 1.4, 0.1)))
                (\<lambda>h. Inr (frames @ [\<lparr>timestamp = t * 2.5, joints = joints\<rparr>], h)))
         (frames0, h0))"

definition create_school_gesture ::
  "jdict \<Rightarrow> store \<Rightarrow> py_error + (GestureFrame list \<times> store)" where
  "create_school_gesture skeleton h0 =
     (let initial_joints = skeleton;
          frames0 = [\<lparr>timestamp = 0.0, joints = initial_joints\<rparr>]
      in for_each [0 ..< 15] (\<lambda>i (frames, h).
           let t = real i / 14.0;
               joints = skeleton
           in then_do (set_position joints ''right_hand'' (0.2 + t * 0.3, 1.0, 0.1) h) (\<lambda>h.
              then_do (set_rotation joints ''right_wrist'' (0, 0, t * 0.2) h) (\<lambda>h.
              Inr (frames @ [\<lparr>timestamp = t * 2.0, joints = joints\<rparr>], h))))
         (frames0, h0))"

text \<open>\<^verbatim>\<open>_load_gesture_database\<close>: the dictionary literal calls the builders from left to
  right, each on the store the one before left.\<close>

definition load_gesture_database ::
  "jdict \<Rightarrow> store \<Rightarrow> py_error + ((string \<times> GestureFrame list) list \<times> store)" where
  "load_gesture_database skeleton h0 =
     then_do (create_hello_gesture skeleton h0) (\<lambda>(hello, h).
     then_do (create_thank_you_gesture skeleton h) (\<lambda>(thank_you, h).
     then_do (create_yes_gesture skeleton h) (\<lambda>(yes, h).
     then_do (create_no_gesture skeleton h) (\<lambda>(no, h).
     then_do (create_good_gesture skeleton h) (\<lambda>(good, h).
     then_do (create_bad_gesture skeleton h) (\<lambda>(bad, h).
     then_do (create_water_gesture skeleton h) (\<lambda>(water, h).
     then_do (create_food_gesture skeleton h) (\<lambda>(food, h).
     then_do (create_home_gesture skeleton h) (\<lambda>(home, h).
     then_do (create_school_gesture skeleton h) (\<lambda>(school, h).
     Inr ([(''HELLO'', hello), (''THANK_YOU'', thank_you), (''YES'', yes), (''NO'', no),
           (''GOOD'', good), (''BAD'', bad), (''WATER'', water), (''FOOD'', food),
           (''HOME'', home), (''SCHOOL'', school)], h)))))))))))"

subsection \<open>The engine\<close>

record ISLAvatar =
  skeleton :: jdict
  gesture_database :: "(string \<times> GestureFrame list) list"
  current_pose :: jdict
  animation_speed :: real

text \<open>\<^verbatim>\<open>ISLAvatar.__init__\<close>: the engine and the store of its joints.\<close>

definition init :: "py_error + (ISLAvatar \<times> store)" where
  "init =
     then_do create_skeleton (\<lambda>(sk, h).
     then_do (load_gesture_database sk h) (\<lambda>(db, h).
     Inr (\<lparr>skeleton = sk, gesture_database = db, current_pose = [],
           animation_speed = 1.0\<rparr>, h)))"

subsection \<open>Playing a gesture\<close>

text \<open>
  Operations return their value together with the warnings they log. \<^verbatim>\<open>if duration:\<close> is
  Python's truth test: \<^verbatim>\<open>None\<close> and zero are false. \<^verbatim>\<open>xs[-1]\<close> raises on the empty list,
  a float division raises on a zero divisor. The arithmetic of \<open>animate_gesture\<close> is that of
  the reals; the next subsection has the same function in double precision.
\<close>

definition truthy :: "real option \<Rightarrow> bool" where
  "truthy d = (case d of None \<Rightarrow> False | Some x \<Rightarrow> x \<noteq> 0)"

definition last_item :: "'a list \<Rightarrow> py_error + 'a" where
  "last_item xs = (if xs = [] then Inl IndexError else Inr (last xs))"

definition float_div :: "real \<Rightarrow> real \<Rightarrow> py_error + real" where
  "float_div a b = (if b = 0 then Inl ZeroDivisionError else Inr (a / b))"

definition not_found_warning :: "string \<Rightarrow> string" where
  "not_found_warning gesture_name =
     ''Gesture '' @ [CHR 0x27] @ gesture_name @ [CHR 0x27] @ '' not found in database''"

definition animate_gesture ::
  "ISLAvatar \<Rightarrow> string \<Rightarrow> real option \<Rightarrow> py_error + (GestureFrame list \<times> string list)" where
  "animate_gesture self gesture_name duration =
     (case map_of (gesture_database self) gesture_name of
        None \<Rightarrow> Inr ([], [not_found_warning gesture_name])
      | Some gesture_frames \<Rightarrow>
          if truthy duration then
            then_do (last_item gesture_frames) (\<lambda>final.
            let original_duration = timestamp final in
            then_do (float_div (the duration) original_duration) (\<lambda>scale_factor.
            let scaled_frames =
                  map (\<lambda>frame. \<lparr>timestamp = timestamp frame * scale_factor,
                                joints = joints frame\<rparr>) gesture_frames
            in Inr (scaled_frames, [])))
          else Inr (gesture_frames, []))"

subsection \<open>Playing a gesture in double precision\<close>

text \<open>
  The timestamps of the program are IEEE doubles. \<open>fl x\<close> is the double nearest the real \<open>x\<close>,
  a tie going to the even significand: doubles around \<open>x\<close> are the multiples of \<open>ulp x\<close>, which
  is 2 to the power of the binary exponent of \<open>x\<close> less 52, and no less than the smallest
  subnormal, 2 to the power of -1074. Magnitudes of 2 to the power of 1024 and above, which
  the program rounds to infinity, are outside the model.
\<close>

definition round_half_even :: "real \<Rightarrow> int" where
  "round_half_even q =
     (let f = \<lfloor>q\<rfloor>; r = q - of_int f
      in if r < 1 / 2 then f else if 1 / 2 < r then f + 1 else if even f then f else f + 1)"

definition ulp :: "real \<Rightarrow> real" where
  "ulp x = 2 powr of_int (max (\<lfloor>log 2 \<bar>x\<bar>\<rfloor> - 52) (- 1074))"

definition fl :: "real \<Rightarrow> real" where
  "fl x = (if x = 0 then 0 else of_int (round_half_even (x / ulp x)) * ulp x)"

text \<open>
  \<^verbatim>\<open>animate_gesture\<close> with the rounding of its two float operations, the division and the
  multiplication, written out as \<open>rnd\<close>: \<open>fl\<close> is the arithmetic of the program, and with no
  rounding the function is \<open>animate_gesture\<close> above.
\<close>

definition animate_gesture_in ::
  "(real \<Rightarrow> real) \<Rightarrow> ISLAvatar \<Rightarrow> string \<Rightarrow> real option \<Rightarrow>
     py_error + (GestureFrame list \<times> string list)" where
  "animate_gesture_in rnd self gesture_name duration =
     (case map_of (gesture_database self) gesture_name of
        None \<Rightarrow> Inr ([], [not_found_warning gesture_name])
      | Some gesture_frames \<Rightarrow>
          if truthy duration then
            then_do (last_item gesture_frames) (\<lambda>final.
            let original_duration = timestamp final in
            then_do (if original_duration = 0 then Inl ZeroDivisionError
                     else Inr (rnd (the duration / original_duration))) (\<lambda>scale_factor.
            let scaled_frames =
                  map (\<lambda>frame. \<lparr>timestamp = rnd (timestamp frame * scale_factor),
                                joints = joints frame\<rparr>) gesture_frames
            in Inr (scaled_frames, [])))
          else Inr (gesture_frames, []))"

subsection \<open>Composing a text\<close>

text \<open>\<^verbatim>\<open>str.upper\<close> and \<^verbatim>\<open>str.split\<close> with no argument, on ASCII strings.\<close>

definition upper_char :: "char \<Rightarrow> char" where
  "upper_char c =
     (case map_of (zip ''abcdefghijklmnopqrstuvwxyz'' ''ABCDEFGHIJKLMNOPQRSTUVWXYZ'') c of
        None \<Rightarrow> c
      | Some u \<Rightarrow> u)"

definition upper :: "string \<Rightarrow> string" where
  "upper s = map upper_char s"

definition is_space :: "char \<Rightarrow> bool" where
  "is_space c = ((of_char c :: nat) \<in> set [9, 10, 11, 12, 13, 28, 29, 30, 31, 32])"

fun split_from :: "string \<Rightarrow> string \<Rightarrow> string list" where
  "split_from cur [] = (if cur = [] then [] else [cur])"
| "split_from cur (c # cs) =
     (if is_space c then (if cur = [] then split_from [] cs else cur # split_from [] cs)
      else split_from (cur @ [c]) cs)"

definition split :: "string \<Rightarrow> string list" where
  "split s = split_from [] s"

text \<open>
  The loop state of \<^verbatim>\<open>animate_text\<close> is \<^verbatim>\<open>all_frames\<close>, \<^verbatim>\<open>current_time\<close> and the log.
  \<open>letter_step\<close> is the body of the inner loop over the letters of an unknown word,
  \<open>word_step\<close> the body of the loop over the words.
\<close>

type_synonym text_state = "GestureFrame list \<times> real \<times> string list"

definition letter_step :: "ISLAvatar \<Rightarrow> char \<Rightarrow> text_state \<Rightarrow> py_error + text_state" where
  "letter_step self letter = (\<lambda>(all_frames, current_time, log).
     if map_of (gesture_database self) [letter] \<noteq> None then
       then_do (animate_gesture self [letter] None) (\<lambda>(gesture_frames, warnings).
       let all_frames = all_frames @
             map (\<lambda>frame. \<lparr>timestamp = timestamp frame + current_time,
                           joints = joints frame\<rparr>) gesture_frames
       in then_do (last_item gesture_frames) (\<lambda>final.
          Inr (all_frames, current_time + (timestamp final + 0.2), log @ warnings)))
     else Inr (all_frames, current_time, log))"

definition word_step :: "ISLAvatar \<Rightarrow> string \<Rightarrow> text_state \<Rightarrow> py_error + text_state" where
  "word_step self word = (\<lambda>(all_frames, current_time, log).
     if map_of (gesture_database self) word \<noteq> None then
       then_do (animate_gesture self word None) (\<lambda>(gesture_frames, warnings).
       let all_frames = all_frames @
             map (\<lambda>frame. \<lparr>timestamp = timestamp frame + current_time,
                           joints = joints frame\<rparr>) gesture_frames
       in then_do (last_item gesture_frames) (\<lambda>final.
          Inr (all_frames, current_time + (timestamp final + 0.5), log @ warnings)))
     else for_each word (letter_step self) (all_frames, current_time, log))"

definition animate_text ::
  "ISLAvatar \<Rightarrow> string \<Rightarrow> py_error + (GestureFrame list \<times> string list)" where
  "animate_text self text =
     (let words = split (upper text);
          all_frames = [];
          current_time = 0.0
      in then_do (for_each words (word_step self) (all_frames, current_time, []))
           (\<lambda>(all_frames, current_time, log). Inr (all_frames, log)))"

definition get_available_gestures :: "ISLAvatar \<Rightarrow> string list" where
  "get_available_gestures self = map fst (gesture_database self)"

subsection \<open>Export\<close>

text \<open>
  The dictionary \<^verbatim>\<open>animation_data\<close> and its parts, as records. \<^verbatim>\<open>json.dumps\<close> is not
  modelled: the text it returns for \<open>d\<close> is \<open>JsonDumps d\<close>. \<^verbatim>\<open>d[k] = v\<close> on a dictionary is
  \<^const>\<open>AList.update\<close>: the value of an old key is replaced, a new key is added at the end.
\<close>

record joint_data =
  jd_position :: vec3
  jd_rotation :: vec3

record frame_data =
  fd_timestamp :: real
  fd_joints :: "(string \<times> joint_data) list"

record animation_data =
  ad_frames :: "frame_data list"
  ad_duration :: real

datatype py_str = JsonDumps animation_data | Str string

definition unsupported_warning :: "string \<Rightarrow> string" where
  "unsupported_warning format =
     ''Export format '' @ [CHR 0x27] @ format @ [CHR 0x27] @ '' not supported yet''"

definition export_frame :: "store \<Rightarrow> GestureFrame \<Rightarrow> frame_data" where
  "export_frame h frame =
     fold (\<lambda>(joint_name, joint) frame_data.
             frame_data\<lparr>fd_joints :=
               AList.update joint_name
                 \<lparr>jd_position = position (h ! joint), jd_rotation = rotation (h ! joint)\<rparr>
                 (fd_joints frame_data)\<rparr>)
          (joints frame)
          \<lparr>fd_timestamp = timestamp frame, fd_joints = []\<rparr>"

definition export_animation ::
  "store \<Rightarrow> GestureFrame list \<Rightarrow> string \<Rightarrow> py_str \<times> string list" where
  "export_animation h frames format =
     (if format = ''json'' then
        let animation_data =
              \<lparr>ad_frames = [],
               ad_duration = (if frames \<noteq> [] then timestamp (last frames) else 0.0)\<rparr>
        in (JsonDumps
              (fold (\<lambda>frame animation_data.
                       animation_data\<lparr>ad_frames :=
                         ad_frames animation_data @ [export_frame h frame]\<rparr>)
                 frames animation_data), [])
      else (Str [], [unsupported_warning format]))"

section \<open>Properties\<close>

subsection \<open>What a builder returns\<close>

text \<open>
  Every builder returns the rest frame at time 0 followed by \<open>n\<close> frames at the times
  \<open>i / (n - 1) * d\<close>, each holding the skeleton dictionary itself, and leaves the store its
  \<open>n\<close> rounds of writes produce.
\<close>

definition sampled :: "jdict \<Rightarrow> nat \<Rightarrow> real \<Rightarrow> GestureFrame list" where
  "sampled sk n d =
     \<lparr>timestamp = 0, joints = sk\<rparr> #
     map (\<lambda>i. \<lparr>timestamp = real i / real (n - 1) * d, joints = sk\<rparr>) [0 ..< n]"

lemma for_each_frames:
  assumes "\<And>i frames h. i \<in> set xs \<Longrightarrow> body i (frames, h) = Inr (frames @ [fr i], w i h)"
  shows "for_each xs body (frames, h) = Inr (frames @ map fr xs, fold w xs h)"
  using assms by (induction xs arbitrary: frames h) simp_all

lemma create_hello_gesture_eq:
  assumes "dict_get sk ''right_wrist'' = Inr w" and "dict_get sk ''right_hand'' = Inr r"
  shows "create_hello_gesture sk h =
     Inr (sampled sk 10 2,
          fold (\<lambda>i. write_rotation r (0, 0, sin (real i / 9 * pi * 2) * 0.3) \<circ>
                     write_rotation w (0, 0, sin (real i / 9 * pi * 2) * 0.3)) [0 ..< 10] h)"
    (is "_ = Inr (_, fold ?w _ _)")
  unfolding create_hello_gesture_def sampled_def Let_def
  by (subst for_each_frames
        [where fr = "\<lambda>i. \<lparr>timestamp = real i / 9 * 2, joints = sk\<rparr>" and w = ?w])
     (simp_all add: then_do_def set_rotation_def assms)

lemma create_thank_you_gesture_eq:
  assumes "dict_get sk ''left_hand'' = Inr l" and "dict_get sk ''right_hand'' = Inr r"
  shows "create_thank_you_gesture sk h =
     Inr (sampled sk 15 1.5,
          fold (\<lambda>i. write_position r (0.2, 1.2 + real i / 14 * 0.3, 0.1) \<circ>
                     write_position l (-0.2, 1.2 + real i / 14 * 0.3, 0.1)) [0 ..< 15] h)"
    (is "_ = Inr (_, fold ?w _ _)")
  unfolding create_thank_you_gesture_def sampled_def Let_def
  by (subst for_each_frames
        [where fr = "\<lambda>i. \<lparr>timestamp = real i / 14 * 1.5, joints = sk\<rparr>" and w = ?w])
     (simp_all add: then_do_def set_position_def assms)

lemma create_yes_gesture_eq:
  assumes "dict_get sk ''head'' = Inr hj" and "dict_get sk ''neck'' = Inr nk"
  shows "create_yes_gesture sk h =
     Inr (sampled sk 8 1,
          fold (\<lambda>i. write_rotation nk (sin (real i / 7 * pi) * 0.2, 0, 0) \<circ>
                     write_rotation hj (sin (real i / 7 * pi) * 0.2, 0, 0)) [0 ..< 8] h)"
    (is "_ = Inr (_, fold ?w _ _)")
  unfolding create_yes_gesture_def sampled_def Let_def
  by (subst for_each_frames
        [where fr = "\<lambda>i. \<lparr>timestamp = real i / 7 * 1, joints = sk\<rparr>" and w = ?w])
     (simp_all add: then_do_def set_rotation_def assms)

lemma create_no_gesture_eq:
  assumes "dict_get sk ''head'' = Inr hj" and "dict_get sk ''neck'' = Inr nk"
  shows "create_no_gesture sk h =
     Inr (sampled sk 12 1.2,
          fold (\<lambda>i. write_rotation nk (0, 0, sin (real i / 11 * pi * 4) * 0.3) \<circ>
                     write_rotation hj (0, 0, sin (real i / 11 * pi * 4) * 0.3)) [0 ..< 12] h)"
    (is "_ = Inr (_, fold ?w _ _)")
  unfolding create_no_gesture_def sampled_def Let_def
  by (subst for_each_frames
        [where fr = "\<lambda>i. \<lparr>timestamp = real i / 11 * 1.2, joints = sk\<rparr>" and w = ?w])
     (simp_all add: then_do_def set_rotation_def assms)

lemma create_good_gesture_eq:
  assumes "dict_get sk ''right_hand'' = Inr r" and "dict_get sk ''right_wrist'' = Inr w"
  shows "create_good_gesture sk h =
     Inr (sampled sk 10 1,
          fold (\<lambda>i. write_rotation w (0, 0, 0.3) \<circ> write_rotation r (0, 0, 1.57)) [0 ..< 10] h)"
    (is "_ = Inr (_, fold ?w _ _)")
  unfolding create_good_gesture_def sampled_def Let_def
  by (subst for_each_frames
        [where fr = "\<lambda>i. \<lparr>timestamp = real i / 9 * 1, joints = sk\<rparr>" and w = ?w])
     (simp_all add: then_do_def set_rotation_def assms)

lemma create_bad_gesture_eq:
  assumes "dict_get sk ''right_hand'' = Inr r" and "dict_get sk ''right_wrist'' = Inr w"
  shows "create_bad_gesture sk h =
     Inr (sampled sk 10 1,
          fold (\<lambda>i. write_rotation w (0, 0, -0.3) \<circ> write_rotation r (0, 0, -1.57)) [0 ..< 10] h)"
    (is "_ = Inr (_, fold ?w _ _)")
  unfolding create_bad_gesture_def sampled_def Let_def
  by (subst for_each_frames
        [where fr = "\<lambda>i. \<lparr>timestamp = real i / 9 * 1, joints = sk\<rparr>" and w = ?w])
     (simp_all add: then_do_def set_rotation_def assms)

lemma create_water_gesture_eq:
  assumes "dict_get sk ''right_hand'' = Inr r" and "dict_get sk ''right_elbow'' = Inr e"
  shows "create_water_gesture sk h =
     Inr (sampled sk 15 2,
          fold (\<lambda>i. write_rotation e (0, 0, real i / 14 * 0.5) \<circ>
                     write_position r (0.1, 1.6 - real i / 14 * 0.4, 0.2)) [0 ..< 15] h)"
    (is "_ = Inr (_, fold ?w _ _)")
  unfolding create_water_gesture_def sampled_def Let_def
  by (subst for_each_frames
        [where fr = "\<lambda>i. \<lparr>timestamp = real i / 14 * 2, joints = sk\<rparr>" and w = ?w])
     (simp_all add: then_do_def set_rotation_def set_position_def assms)

lemma create_food_gesture_eq:
  assumes "dict_get sk ''right_hand'' = Inr r"
  shows "create_food_gesture sk h =
     Inr (sampled sk 12 1.5,
          fold (\<lambda>i. write_position r (0.1, 1.6 - \<bar>real i / 11 - 0.5\<bar> * 0.8, 0.2)) [0 ..< 12] h)"
    (is "_ = Inr (_, fold ?w _ _)")
  unfolding create_food_gesture_def sampled_def Let_def
  by (subst for_each_frames
        [where fr = "\<lambda>i. \<lparr>timestamp = real i / 11 * 1.5, joints = sk\<rparr>" and w = ?w])
     (simp_all add: then_do_def set_position_def assms)

lemma create_home_gesture_eq:
  assumes "dict_get sk ''left_hand'' = Inr l" and "dict_get sk ''right_hand'' = Inr r"
  shows "create_home_gesture sk h =
     Inr (sampled sk 20 2.5,
          fold (\<lambda>i. if real i / 19 < 0.5
                     then write_position r (0.3, 1.2 + real i / 19 * 0.4, 0.1) \<circ>
                          write_position l (-0.3, 1.2 + real i / 19 * 0.4, 0.1)
                     else write_position r (0.3, 1.4, 0.1) \<circ>
                          write_position l (-0.3, 1.4, 0.1)) [0 ..< 20] h)"
    (is "_ = Inr (_, fold ?w _ _)")
  unfolding create_home_gesture_def sampled_def Let_def
  by (subst for_each_frames
        [where fr = "\<lambda>i. \<lparr>timestamp = real i / 19 * 2.5, joints = sk\<rparr>" and w = ?w])
     (simp_all add: then_do_def set_position_def assms)

lemma create_school_gesture_eq:
  assumes "dict_get sk ''right_hand'' = Inr r" and "dict_get sk ''right_wrist'' = Inr w"
  shows "create_school_gesture sk h =
     Inr (sampled sk 15 2,
          fold (\<lambda>i. write_rotation w (0, 0, real i / 14 * 0.2) \<circ>
                     write_position r (0.2 + real i / 14 * 0.3, 1.0, 0.1)) [0 ..< 15] h)"
    (is "_ = Inr (_, fold ?w _ _)")
  unfolding create_school_gesture_def sampled_def Let_def
  by (subst for_each_frames
        [where fr = "\<lambda>i. \<lparr>timestamp = real i / 14 * 2, joints = sk\<rparr>" and w = ?w])
     (simp_all add: then_do_def set_rotation_def set_position_def assms)

subsection \<open>The state after construction\<close>

text \<open>
  The skeleton dictionary and the store that \<open>create_skeleton\<close> returns, the catalog, and
  the store once all ten builders have run (\<open>built_store\<close>): each joint holds what the
  last write to it left.
\<close>

definition rest_skeleton :: jdict where
  "rest_skeleton =
     [(''head'', 0), (''neck'', 1), (''left_shoulder'', 2), (''left_elbow'', 3),
      (''left_wrist'', 4), (''left_hand'', 5), (''right_shoulder'', 6), (''right_elbow'', 7),
      (''right_wrist'', 8), (''right_hand'', 9), (''spine'', 10), (''hip'', 11)]"

definition rest_store :: store where
  "rest_store =
     [\<lparr>name = ''head'', position = (0, 1.8, 0), rotation = (0, 0, 0), parent = None,
        children = []\<rparr>,
      \<lparr>name = ''neck'', position = (0, 1.6, 0), rotation = (0, 0, 0), parent = None,
        children = [''head'']\<rparr>,
      \<lparr>name = ''left_shoulder'', position = (-0.3, 1.5, 0), rotation = (0, 0, 0),
        parent = None, children = [''left_elbow'', ''left_elbow'']\<rparr>,
      \<lparr>name = ''left_elbow'', position = (-0.5, 1.2, 0), rotation = (0, 0, 0),
        parent = Some ''left_shoulder'', children = [''left_wrist'', ''left_wrist'']\<rparr>,
      \<lparr>name = ''left_wrist'', position = (-0.7, 0.9, 0), rotation = (0, 0, 0),
        parent = Some ''left_elbow'', children = [''left_hand'', ''left_hand'']\<rparr>,
      \<lparr>name = ''left_hand'', position = (-0.8, 0.7, 0), rotation = (0, 0, 0),
        parent = Some ''left_wrist'', children = []\<rparr>,
      \<lparr>name = ''right_shoulder'', position = (0.3, 1.5, 0), rotation = (0, 0, 0),
        parent = None, children = [''right_elbow'', ''right_elbow'']\<rparr>,
      \<lparr>name = ''right_elbow'', position = (0.5, 1.2, 0), rotation = (0, 0, 0),
        parent = Some ''right_shoulder'', children = [''right_wrist'', ''right_wrist'']\<rparr>,
      \<lparr>name = ''right_wrist'', position = (0.7, 0.9, 0), rotation = (0, 0, 0),
        parent = Some ''right_elbow'', children = [''right_hand'', ''right_hand'']\<rparr>,
      \<lparr>name = ''right_hand'', position = (0.8, 0.7, 0), rotation = (0, 0, 0),
        parent = Some ''right_wrist'', children = []\<rparr>,
      \<lparr>name = ''spine'', position = (0, 1.3, 0), rotation = (0, 0, 0), parent = None,
        children = [''left_shoulder'', ''right_shoulder'', ''neck'']\<rparr>,
      \<lparr>name = ''hip'', position = (0, 0.9, 0), rotation = (0, 0, 0), parent = None,
        children = [''spine'']\<rparr>]"

lemma upt_12: "[0 ..< 12] = [0, 1, 2, 3, 4, 5, 6, 7, 8, 9, 10, 11]"
  by (simp add: upt_rec)

lemma create_skeleton_eq: "create_skeleton = Inr (rest_skeleton, rest_store)"
  by (simp add: create_skeleton_def skeleton_literal_def new_Joint_def dict_get_def upt_12
      rest_skeleton_def rest_store_def)

lemma rest_skeleton_get:
  "dict_get rest_skeleton ''head'' = Inr 0"
  "dict_get rest_skeleton ''neck'' = Inr 1"
  "dict_get rest_skeleton ''left_hand'' = Inr 5"
  "dict_get rest_skeleton ''right_elbow'' = Inr 7"
  "dict_get rest_skeleton ''right_wrist'' = Inr 8"
  "dict_get rest_skeleton ''right_hand'' = Inr 9"
  by (simp_all add: dict_get_def rest_skeleton_def)

definition built_store :: store where
  "built_store =
     [\<lparr>name = ''head'', position = (0, 1.8, 0), rotation = (0, 0, sin (11 / 11 * pi * 4) * 0.3),
        parent = None, children = []\<rparr>,
      \<lparr>name = ''neck'', position = (0, 1.6, 0), rotation = (0, 0, sin (11 / 11 * pi * 4) * 0.3),
        parent = None, children = [''head'']\<rparr>,
      \<lparr>name = ''left_shoulder'', position = (-0.3, 1.5, 0), rotation = (0, 0, 0),
        parent = None, children = [''left_elbow'', ''left_elbow'']\<rparr>,
      \<lparr>name = ''left_elbow'', position = (-0.5, 1.2, 0), rotation = (0, 0, 0),
        parent = Some ''left_shoulder'', children = [''left_wrist'', ''left_wrist'']\<rparr>,
      \<lparr>name = ''left_wrist'', position = (-0.7, 0.9, 0), rotation = (0, 0, 0),
        parent = Some ''left_elbow'', children = [''left_hand'', ''left_hand'']\<rparr>,
      \<lparr>name = ''left_hand'', position = (-0.3, 1.4, 0.1), rotation = (0, 0, 0),
        parent = Some ''left_wrist'', children = []\<rparr>,
      \<lparr>name = ''right_shoulder'', position = (0.3, 1.5, 0), rotation = (0, 0, 0),
        parent = None, children = [''right_elbow'', ''right_elbow'']\<rparr>,
      \<lparr>name = ''right_elbow'', position = (0.5, 1.2, 0), rotation = (0, 0, 0.5),
        parent = Some ''right_shoulder'', children = [''right_wrist'', ''right_wrist'']\<rparr>,
      \<lparr>name = ''right_wrist'', position = (0.7, 0.9, 0), rotation = (0, 0, 0.2),
        parent = Some ''right_elbow'', children = [''right_hand'', ''right_hand'']\<rparr>,
      \<lparr>name = ''right_hand'', position = (0.5, 1.0, 0.1), rotation = (0, 0, -1.57),
        parent = Some ''right_wrist'', children = []\<rparr>,
      \<lparr>name = ''spine'', position = (0, 1.3, 0), rotation = (0, 0, 0), parent = None,
        children = [''left_shoulder'', ''right_shoulder'', ''neck'']\<rparr>,
      \<lparr>name = ''hip'', position = (0, 0.9, 0), rotation = (0, 0, 0), parent = None,
        children = [''spine'']\<rparr>]"

definition catalog :: "jdict \<Rightarrow> (string \<times> GestureFrame list) list" where
  "catalog sk =
     [(''HELLO'', sampled sk 10 2), (''THANK_YOU'', sampled sk 15 1.5),
      (''YES'', sampled sk 8 1), (''NO'', sampled sk 12 1.2), (''GOOD'', sampled sk 10 1),
      (''BAD'', sampled sk 10 1), (''WATER'', sampled sk 15 2), (''FOOD'', sampled sk 12 1.5),
      (''HOME'', sampled sk 20 2.5), (''SCHOOL'', sampled sk 15 2)]"

lemma upt_unfold:
  "[0 ..< 8] = [0, 1, 2, 3, 4, 5, 6, 7]"
  "[0 ..< 10] = [0, 1, 2, 3, 4, 5, 6, 7, 8, 9]"
  "[0 ..< 15] = [0, 1, 2, 3, 4, 5, 6, 7, 8, 9, 10, 11, 12, 13, 14]"
  "[0 ..< 20] = [0, 1, 2, 3, 4, 5, 6, 7, 8, 9, 10, 11, 12, 13, 14, 15, 16, 17, 18, 19]"
  by (simp_all add: upt_rec)

lemma load_gesture_database_eq:
  "load_gesture_database rest_skeleton rest_store = Inr (catalog rest_skeleton, built_store)"
  unfolding load_gesture_database_def
  apply (simp add: then_do_def catalog_def create_hello_gesture_eq [OF rest_skeleton_get(5,6)]
      create_thank_you_gesture_eq [OF rest_skeleton_get(3,6)]
      create_yes_gesture_eq [OF rest_skeleton_get(1,2)]
      create_no_gesture_eq [OF rest_skeleton_get(1,2)]
      create_good_gesture_eq [OF rest_skeleton_get(6,5)]
      create_bad_gesture_eq [OF rest_skeleton_get(6,5)]
      create_water_gesture_eq [OF rest_skeleton_get(6,4)]
      create_food_gesture_eq [OF rest_skeleton_get(6)]
      create_home_gesture_eq [OF rest_skeleton_get(3,6)]
      create_school_gesture_eq [OF rest_skeleton_get(6,5)])
  apply (simp add: upt_unfold upt_12 rest_store_def built_store_def write_rotation_def write_position_def)
  done


definition the_engine :: ISLAvatar where
  "the_engine =
     \<lparr>skeleton = rest_skeleton, gesture_database = catalog rest_skeleton, current_pose = [],
      animation_speed = 1\<rparr>"

lemma init_eq: "init = Inr (the_engine, built_store)"
  by (simp add: init_def then_do_def create_skeleton_eq load_gesture_database_eq the_engine_def)

lemma init_cases:
  assumes "init = Inr (av, h)"
  shows "av = the_engine" and "h = built_store"
  using assms by (simp_all add: init_eq)

subsection \<open>Sampled frame sequences\<close>

lemma sampled_nonempty: "sampled sk n d \<noteq> []"
  by (simp add: sampled_def)

lemma sampled_hd: "timestamp (hd (sampled sk n d)) = 0"
  by (simp add: sampled_def)

lemma sampled_joints: "f \<in> set (sampled sk n d) \<Longrightarrow> joints f = sk"
  by (auto simp: sampled_def)

lemma sampled_sorted:
  assumes "0 \<le> d"
  shows "sorted (map timestamp (sampled sk n d))"
proof -
  have "sorted_wrt (\<lambda>i j. real i / real (n - 1) * d \<le> real j / real (n - 1) * d) [0 ..< n]"
    by (rule sorted_wrt_mono_rel [OF _ sorted_wrt_upt])
       (simp add: assms divide_right_mono mult_right_mono)
  moreover have "\<forall>i \<in> set [0 ..< n]. 0 \<le> real i / real (n - 1) * d"
    by (simp add: assms)
  ultimately show ?thesis
    by (simp add: sampled_def sorted_map comp_def)
qed

lemma sampled_last:
  assumes "2 \<le> n"
  shows "timestamp (last (sampled sk n d)) = d"
proof -
  obtain m where n: "n = Suc (Suc m)"
    using assms by (metis add_2_eq_Suc le_Suc_ex)
  show ?thesis
    by (simp add: sampled_def n del: upt_Suc) (simp add: last_map)
qed

text \<open>A catalog entry is sampled from the skeleton at two frames or more over a positive time.\<close>

definition sampled_gesture :: "jdict \<Rightarrow> GestureFrame list \<Rightarrow> bool" where
  "sampled_gesture sk g = (\<exists>n d. 2 \<le> n \<and> 0 < d \<and> g = sampled sk n d)"

lemma sampled_gestureI: "2 \<le> n \<Longrightarrow> 0 < d \<Longrightarrow> sampled_gesture sk (sampled sk n d)"
  unfolding sampled_gesture_def by blast

lemma catalog_sampled:
  assumes "map_of (catalog sk) gesture_name = Some g"
  shows "sampled_gesture sk g"
  using assms by (auto simp: catalog_def split: if_splits intro!: sampled_gestureI)

lemma catalog_no_letter: "map_of (catalog sk) [letter] = None"
  by (simp add: catalog_def)

section \<open>The claims\<close>

subsection \<open>The skeleton (C2)\<close>

text \<open>
  The traversal of the invariant check: the joints met from a joint along the children
  sets, each child of a joint taken once, in preorder, to the depth given.
\<close>

fun traverse :: "nat \<Rightarrow> jdict \<Rightarrow> store \<Rightarrow> string \<Rightarrow> string list" where
  "traverse 0 sk h n = []"
| "traverse (Suc k) sk h n =
     (case map_of sk n of
        None \<Rightarrow> []
      | Some a \<Rightarrow> n # concat (map (traverse k sk h) (remdups (children (h ! a)))))"

lemma traverse_hip:
  "traverse (6 + k) rest_skeleton rest_store ''hip'' =
     [''hip'', ''spine'', ''left_shoulder'', ''left_elbow'', ''left_wrist'', ''left_hand'',
      ''right_shoulder'', ''right_elbow'', ''right_wrist'', ''right_hand'', ''neck'', ''head'']"
proof -
  have fuel: "6 + k = Suc (Suc (Suc (Suc (Suc (Suc k)))))"
    by simp
  show ?thesis
    unfolding fuel by (simp add: rest_skeleton_def rest_store_def)
qed

text \<open>
  C2, as the code has it. The skeleton built at construction is a single tree of exactly
  twelve joints rooted at \<open>hip\<close>: the names are distinct and each joint is stored under its
  own name; \<open>hip\<close> has no parent and is in no joint's children; every other joint is in the
  children of exactly one joint; every name in a joint's children names a joint of the
  skeleton, whose parent field names no other joint; every joint that has a parent has one that is in the joint set and whose
  children hold the joint's name; and the traversal from \<open>hip\<close> along the children sets
  reaches every one of the twelve joints exactly once, at any depth from 6 on, so that
  there is no orphan and no cycle.
\<close>

theorem skeleton_structure:
  assumes "create_skeleton = Inr (sk, h)"
  shows "length sk = 12 \<and> distinct (map fst sk) \<and> distinct (map snd sk) \<and> length h = 12 \<and>
         (\<forall>(n, a) \<in> set sk. a < length h \<and> name (h ! a) = n) \<and>
         (\<exists>a. map_of sk ''hip'' = Some a \<and> parent (h ! a) = None) \<and>
         (\<forall>(n, a) \<in> set sk. ''hip'' \<notin> set (children (h ! a))) \<and>
         (\<forall>(n, a) \<in> set sk. n \<noteq> ''hip'' \<longrightarrow>
            length (filter (\<lambda>(m, b). n \<in> set (children (h ! b))) sk) = 1) \<and>
         (\<forall>(n, a) \<in> set sk. \<forall>c \<in> set (children (h ! a)).
            \<exists>ca. map_of sk c = Some ca \<and> (\<forall>p. parent (h ! ca) = Some p \<longrightarrow> p = n)) \<and>
         (\<forall>(n, a) \<in> set sk. \<forall>p. parent (h ! a) = Some p \<longrightarrow>
            (\<exists>pa. map_of sk p = Some pa \<and> n \<in> set (children (h ! pa)))) \<and>
         (\<forall>k. traverse (6 + k) sk h ''hip'' = traverse 6 sk h ''hip'') \<and>
         distinct (traverse 6 sk h ''hip'') \<and>
         set (traverse 6 sk h ''hip'') = set (map fst sk)"
proof -
  have sk: "sk = rest_skeleton" and h: "h = rest_store"
    using assms by (simp_all add: create_skeleton_eq)
  have v6: "traverse 6 rest_skeleton rest_store ''hip'' =
     [''hip'', ''spine'', ''left_shoulder'', ''left_elbow'', ''left_wrist'', ''left_hand'',
      ''right_shoulder'', ''right_elbow'', ''right_wrist'', ''right_hand'', ''neck'', ''head'']"
    using traverse_hip [of 0] by simp
  have 1: "\<forall>k. traverse (6 + k) rest_skeleton rest_store ''hip'' = traverse 6 rest_skeleton rest_store ''hip''"
    unfolding v6 by (simp only: traverse_hip) simp
  have 2: "distinct (traverse 6 rest_skeleton rest_store ''hip'')"
    unfolding v6 by simp
  have 3: "set (traverse 6 rest_skeleton rest_store ''hip'') = set (map fst rest_skeleton)"
    unfolding v6 by (simp add: rest_skeleton_def insert_commute)
  have 4: "\<forall>(n, a) \<in> set rest_skeleton. \<forall>p. parent (rest_store ! a) = Some p \<longrightarrow>
            (\<exists>pa. map_of rest_skeleton p = Some pa \<and> n \<in> set (children (rest_store ! pa)))"
    by (simp add: rest_skeleton_def rest_store_def)
  have 5: "\<forall>(n, a) \<in> set rest_skeleton. a < length rest_store \<and> name (rest_store ! a) = n"
    by (simp add: rest_skeleton_def rest_store_def)
  have 6: "length rest_skeleton = 12 \<and> distinct (map fst rest_skeleton) \<and>
     distinct (map snd rest_skeleton) \<and> length rest_store = 12 \<and>
     (\<exists>a. map_of rest_skeleton ''hip'' = Some a \<and> parent (rest_store ! a) = None)"
    by (simp add: rest_skeleton_def rest_store_def)
  have 7: "\<forall>(n, a) \<in> set rest_skeleton. ''hip'' \<notin> set (children (rest_store ! a))"
    by (simp add: rest_skeleton_def rest_store_def)
  have 8: "\<forall>(n, a) \<in> set rest_skeleton. n \<noteq> ''hip'' \<longrightarrow>
            length (filter (\<lambda>(m, b). n \<in> set (children (rest_store ! b))) rest_skeleton) = 1"
    by (simp add: rest_skeleton_def rest_store_def)
  have 9: "\<forall>(n, a) \<in> set rest_skeleton. \<forall>c \<in> set (children (rest_store ! a)).
            \<exists>ca. map_of rest_skeleton c = Some ca \<and>
              (\<forall>p. parent (rest_store ! ca) = Some p \<longrightarrow> p = n)"
    by (simp add: rest_skeleton_def rest_store_def)
  show ?thesis
    unfolding sk h using 1 2 3 4 5 6 7 8 9 by blast
qed

theorem skeleton_structure_witness:
  "create_skeleton = Inr (rest_skeleton, rest_store) \<and>
   length rest_skeleton = 12 \<and>
   map_of rest_skeleton ''left_hand'' = Some 5 \<and>
   parent (rest_store ! 5) = Some ''left_wrist'' \<and>
   map_of rest_skeleton ''left_wrist'' = Some 4 \<and>
   ''left_hand'' \<in> set (children (rest_store ! 4)) \<and>
   length (filter (\<lambda>(m, b). ''left_hand'' \<in> set (children (rest_store ! b))) rest_skeleton) = 1 \<and>
   traverse 6 rest_skeleton rest_store ''hip'' =
     [''hip'', ''spine'', ''left_shoulder'', ''left_elbow'', ''left_wrist'', ''left_hand'',
      ''right_shoulder'', ''right_elbow'', ''right_wrist'', ''right_hand'', ''neck'', ''head''] \<and>
   traverse 12 rest_skeleton rest_store ''hip'' = traverse 6 rest_skeleton rest_store ''hip''"
proof -
  have six: "traverse 6 rest_skeleton rest_store ''hip'' =
     [''hip'', ''spine'', ''left_shoulder'', ''left_elbow'', ''left_wrist'', ''left_hand'',
      ''right_shoulder'', ''right_elbow'', ''right_wrist'', ''right_hand'', ''neck'', ''head'']"
    using traverse_hip [of 0] by simp
  have "\<forall>k. traverse (6 + k) rest_skeleton rest_store ''hip'' =
            traverse 6 rest_skeleton rest_store ''hip''"
    using skeleton_structure [OF create_skeleton_eq] by blast
  then have "traverse (6 + 6) rest_skeleton rest_store ''hip'' =
            traverse 6 rest_skeleton rest_store ''hip''"
    by (rule spec)
  then have twelve: "traverse 12 rest_skeleton rest_store ''hip'' =
            traverse 6 rest_skeleton rest_store ''hip''"
    by simp
  have "length rest_skeleton = 12 \<and>
   map_of rest_skeleton ''left_hand'' = Some 5 \<and>
   parent (rest_store ! 5) = Some ''left_wrist'' \<and>
   map_of rest_skeleton ''left_wrist'' = Some 4 \<and>
   ''left_hand'' \<in> set (children (rest_store ! 4)) \<and>
   length (filter (\<lambda>(m, b). ''left_hand'' \<in> set (children (rest_store ! b))) rest_skeleton) = 1"
    by (simp add: rest_skeleton_def rest_store_def)
  then show ?thesis
    using six twelve by (simp add: create_skeleton_eq)
qed

text \<open>
  C2 as stated fails: the joints are twelve and not eleven; \<open>head\<close> (as \<open>neck\<close>, \<open>spine\<close> and
  the shoulders) is not \<open>hip\<close> and has no parent; and \<open>left_elbow\<close> stands twice in the children
  list of \<open>left_shoulder\<close>.
\<close>

theorem skeleton_not_a_tree_of_eleven:
  "create_skeleton = Inr (rest_skeleton, rest_store) \<and>
   length rest_skeleton = 12 \<and>
   dict_get rest_skeleton ''head'' = Inr 0 \<and> parent (rest_store ! 0) = None \<and>
   dict_get rest_skeleton ''left_shoulder'' = Inr 2 \<and>
   children (rest_store ! 2) = [''left_elbow'', ''left_elbow''] \<and>
   \<not> distinct (children (rest_store ! 2))"
  by (simp add: create_skeleton_eq) (simp add: rest_skeleton_def rest_store_def dict_get_def)

subsection \<open>Timestamps of the catalog (C9)\<close>

text \<open>
  C9. Every gesture of the catalog built at startup has a non-empty frame sequence, whose
  first timestamp is 0 and whose timestamps never decrease.
\<close>

theorem catalog_timestamps:
  assumes "init = Inr (av, h)"
    and "map_of (gesture_database av) gesture_name = Some frames"
  shows "frames \<noteq> [] \<and> timestamp (hd frames) = 0 \<and> sorted (map timestamp frames)"
proof -
  have "sampled_gesture rest_skeleton frames"
    using assms by (auto simp: init_eq the_engine_def intro: catalog_sampled)
  then obtain n d where "0 < d" and "frames = sampled rest_skeleton n d"
    unfolding sampled_gesture_def by blast
  then show ?thesis
    by (simp add: sampled_nonempty sampled_hd sampled_sorted)
qed

theorem catalog_timestamps_witness:
  "init = Inr (the_engine, built_store) \<and>
   map_of (gesture_database the_engine) ''YES'' = Some (sampled rest_skeleton 8 1) \<and>
   map timestamp (sampled rest_skeleton 8 1) = [0, 0, 1/7, 2/7, 3/7, 4/7, 5/7, 6/7, 1] \<and>
   sampled rest_skeleton 8 1 \<noteq> [] \<and>
   timestamp (hd (sampled rest_skeleton 8 1)) = 0 \<and>
   sorted (map timestamp (sampled rest_skeleton 8 1))"
proof -
  have a: "init = Inr (the_engine, built_store)"
    by (rule init_eq)
  have b: "map_of (gesture_database the_engine) ''YES'' = Some (sampled rest_skeleton 8 1)"
    by (simp add: the_engine_def catalog_def)
  have c: "map timestamp (sampled rest_skeleton 8 1) = [0, 0, 1/7, 2/7, 3/7, 4/7, 5/7, 6/7, 1]"
    by (simp add: sampled_def upt_unfold)
  show ?thesis
    using a b c catalog_timestamps [OF a b] by simp
qed

subsection \<open>Shared joints (C1, C10)\<close>

text \<open>The pose a frame shows in a store: for each joint name of the frame, the position and
  the rotation of the joint object it refers to.\<close>

definition pose :: "store \<Rightarrow> GestureFrame \<Rightarrow> (string \<times> vec3 \<times> vec3) list" where
  "pose h frame =
     map (\<lambda>(joint_name, joint). (joint_name, position (h ! joint), rotation (h ! joint)))
       (joints frame)"

lemma catalog_frame_joints:
  assumes "map_of (catalog sk) gesture_name = Some frames" and "f \<in> set frames"
  shows "joints f = sk"
  using catalog_sampled [OF assms(1)] assms(2)
  by (auto simp: sampled_gesture_def dest: sampled_joints)

text \<open>
  C1 says that no gesture builder changes the skeleton and that a frame shows the rest pose
  at every joint its gesture does not move. The code at construction: the skeleton's
  \<open>left_hand\<close> is created at (-0.8, 0.7, 0) and stands at (-0.3, 1.4, 0.1) once the builders
  have run, the last value \<^verbatim>\<open>_create_home_gesture\<close> wrote through its copy of the
  dictionary; the first frame of HELLO, which moves the right wrist and hand only, holds
  the skeleton dictionary and so shows that left hand.
\<close>

theorem builders_write_the_skeleton:
  "create_skeleton = Inr (rest_skeleton, rest_store) \<and>
   init = Inr (the_engine, built_store) \<and>
   skeleton the_engine = rest_skeleton \<and>
   dict_get rest_skeleton ''left_hand'' = Inr 5 \<and>
   position (rest_store ! 5) = (-0.8, 0.7, 0) \<and>
   position (built_store ! 5) = (-0.3, 1.4, 0.1) \<and>
   map_of (gesture_database the_engine) ''HELLO'' = Some (sampled rest_skeleton 10 2) \<and>
   hd (sampled rest_skeleton 10 2) = \<lparr>timestamp = 0, joints = rest_skeleton\<rparr>"
  by (simp add: create_skeleton_eq init_eq rest_skeleton_get)
     (simp add: the_engine_def catalog_def rest_store_def built_store_def sampled_def)

text \<open>
  C10, with the number of joints the code has. All frames of all ten catalog gestures hold
  the skeleton dictionary, and so refer to the same twelve joint objects as the skeleton;
  any two frames, of one gesture or of two, show the same pose in the store construction
  leaves, which is for each joint the value of the last write to it.
\<close>

theorem catalog_frames_share_joints:
  assumes "init = Inr (av, h)"
    and "map_of (gesture_database av) name1 = Some frames1" and "f1 \<in> set frames1"
    and "map_of (gesture_database av) name2 = Some frames2" and "f2 \<in> set frames2"
  shows "joints f1 = skeleton av \<and> joints f2 = skeleton av \<and>
         length (skeleton av) = 12 \<and> distinct (map snd (skeleton av)) \<and>
         pose h f1 = pose h f2 \<and>
         pose h f1 =
           [(''head'', (0, 1.8, 0), (0, 0, sin (11 / 11 * pi * 4) * 0.3)),
            (''neck'', (0, 1.6, 0), (0, 0, sin (11 / 11 * pi * 4) * 0.3)),
            (''left_shoulder'', (-0.3, 1.5, 0), (0, 0, 0)),
            (''left_elbow'', (-0.5, 1.2, 0), (0, 0, 0)),
            (''left_wrist'', (-0.7, 0.9, 0), (0, 0, 0)),
            (''left_hand'', (-0.3, 1.4, 0.1), (0, 0, 0)),
            (''right_shoulder'', (0.3, 1.5, 0), (0, 0, 0)),
            (''right_elbow'', (0.5, 1.2, 0), (0, 0, 14 / 14 * 0.5)),
            (''right_wrist'', (0.7, 0.9, 0), (0, 0, 14 / 14 * 0.2)),
            (''right_hand'', (0.2 + 14 / 14 * 0.3, 1.0, 0.1), (0, 0, -1.57)),
            (''spine'', (0, 1.3, 0), (0, 0, 0)),
            (''hip'', (0, 0.9, 0), (0, 0, 0))]"
proof -
  have av: "av = the_engine" and h: "h = built_store"
    using assms(1) by (simp_all add: init_eq)
  have j1: "joints f1 = rest_skeleton"
    using assms(2,3) unfolding av by (simp add: the_engine_def catalog_frame_joints)
  have j2: "joints f2 = rest_skeleton"
    using assms(4,5) unfolding av by (simp add: the_engine_def catalog_frame_joints)
  have sk: "skeleton av = rest_skeleton"
    by (simp add: av the_engine_def)
  have "length rest_skeleton = 12 \<and> distinct (map snd rest_skeleton)"
    by (simp add: rest_skeleton_def)
  moreover have "pose built_store f1 = pose built_store f2"
    by (simp add: pose_def j1 j2)
  moreover have "pose built_store f1 =
           [(''head'', (0, 1.8, 0), (0, 0, sin (11 / 11 * pi * 4) * 0.3)),
            (''neck'', (0, 1.6, 0), (0, 0, sin (11 / 11 * pi * 4) * 0.3)),
            (''left_shoulder'', (-0.3, 1.5, 0), (0, 0, 0)),
            (''left_elbow'', (-0.5, 1.2, 0), (0, 0, 0)),
            (''left_wrist'', (-0.7, 0.9, 0), (0, 0, 0)),
            (''left_hand'', (-0.3, 1.4, 0.1), (0, 0, 0)),
            (''right_shoulder'', (0.3, 1.5, 0), (0, 0, 0)),
            (''right_elbow'', (0.5, 1.2, 0), (0, 0, 14 / 14 * 0.5)),
            (''right_wrist'', (0.7, 0.9, 0), (0, 0, 14 / 14 * 0.2)),
            (''right_hand'', (0.2 + 14 / 14 * 0.3, 1.0, 0.1), (0, 0, -1.57)),
            (''spine'', (0, 1.3, 0), (0, 0, 0)),
            (''hip'', (0, 0.9, 0), (0, 0, 0))]"
    by (simp add: pose_def j1 rest_skeleton_def built_store_def)
  ultimately show ?thesis
    unfolding h sk j1 j2 by blast
qed

theorem catalog_frames_share_joints_witness:
  "init = Inr (the_engine, built_store) \<and>
   map_of (gesture_database the_engine) ''HELLO'' = Some (sampled rest_skeleton 10 2) \<and>
   \<lparr>timestamp = 0, joints = rest_skeleton\<rparr> \<in> set (sampled rest_skeleton 10 2) \<and>
   map_of (gesture_database the_engine) ''HOME'' = Some (sampled rest_skeleton 20 2.5) \<and>
   \<lparr>timestamp = 2.5, joints = rest_skeleton\<rparr> \<in> set (sampled rest_skeleton 20 2.5) \<and>
   pose built_store \<lparr>timestamp = 0, joints = rest_skeleton\<rparr> =
     pose built_store \<lparr>timestamp = 2.5, joints = rest_skeleton\<rparr> \<and>
   length (skeleton the_engine) = 12"
proof -
  have a: "init = Inr (the_engine, built_store)"
    by (rule init_eq)
  have b: "map_of (gesture_database the_engine) ''HELLO'' = Some (sampled rest_skeleton 10 2)"
    by (simp add: the_engine_def catalog_def)
  have c: "\<lparr>timestamp = 0, joints = rest_skeleton\<rparr> \<in> set (sampled rest_skeleton 10 2)"
    by (simp add: sampled_def)
  have d: "map_of (gesture_database the_engine) ''HOME'' = Some (sampled rest_skeleton 20 2.5)"
    by (simp add: the_engine_def catalog_def)
  have e: "\<lparr>timestamp = 2.5, joints = rest_skeleton\<rparr> \<in> set (sampled rest_skeleton 20 2.5)"
    by (simp add: sampled_def upt_unfold)
  show ?thesis
    using a b c d e catalog_frames_share_joints [OF a b c d e]
    by (simp add: the_engine_def)
qed

text \<open>C10 as stated speaks of eleven joint objects: the first frame of HELLO refers to
  twelve, at the addresses 0 to 11.\<close>

theorem catalog_frames_hold_twelve_joints:
  "init = Inr (the_engine, built_store) \<and>
   map_of (gesture_database the_engine) ''HELLO'' = Some (sampled rest_skeleton 10 2) \<and>
   hd (sampled rest_skeleton 10 2) = \<lparr>timestamp = 0, joints = rest_skeleton\<rparr> \<and>
   map snd rest_skeleton = [0, 1, 2, 3, 4, 5, 6, 7, 8, 9, 10, 11] \<and>
   length (map snd rest_skeleton) \<noteq> 11"
  by (simp add: init_eq) (simp add: the_engine_def catalog_def sampled_def rest_skeleton_def)

subsection \<open>Playing a gesture (C3, C4, C5)\<close>

text \<open>The frames of a gesture, each timestamp multiplied by the scale factor.\<close>

definition scaled :: "real \<Rightarrow> GestureFrame list \<Rightarrow> GestureFrame list" where
  "scaled k frames =
     map (\<lambda>frame. \<lparr>timestamp = timestamp frame * k, joints = joints frame\<rparr>) frames"

lemma animate_gesture_unscaled:
  assumes "map_of (gesture_database self) gesture_name = Some frames"
  shows "animate_gesture self gesture_name None = Inr (frames, [])"
    and "animate_gesture self gesture_name (Some 0) = Inr (frames, [])"
  using assms by (simp_all add: animate_gesture_def truthy_def)

lemma animate_gesture_scaled:
  assumes "map_of (gesture_database self) gesture_name = Some frames"
    and "frames \<noteq> []" and "timestamp (last frames) \<noteq> 0" and "D \<noteq> 0"
  shows "animate_gesture self gesture_name (Some D) =
           Inr (scaled (D / timestamp (last frames)) frames, [])"
  using assms
  by (simp add: animate_gesture_def truthy_def last_item_def float_div_def then_do_def scaled_def)

lemma engine_gesture:
  assumes "init = Inr (av, h)" and "map_of (gesture_database av) gesture_name = Some frames"
  shows "frames \<noteq> []" and "0 < timestamp (last frames)" and "sorted (map timestamp frames)"
    and "timestamp (hd frames) = 0"
proof -
  have "sampled_gesture rest_skeleton frames"
    using assms by (auto simp: init_eq the_engine_def intro: catalog_sampled)
  then obtain n d where "2 \<le> n" and "0 < d" and "frames = sampled rest_skeleton n d"
    unfolding sampled_gesture_def by blast
  then show "frames \<noteq> []" and "0 < timestamp (last frames)" and "sorted (map timestamp frames)"
    and "timestamp (hd frames) = 0"
    by (simp_all add: sampled_nonempty sampled_last sampled_sorted sampled_hd)
qed

lemma yes_frames:
  "map_of (gesture_database the_engine) ''YES'' = Some (sampled rest_skeleton 8 1)"
  by (simp add: the_engine_def catalog_def)

lemma hello_frames:
  "map_of (gesture_database the_engine) ''HELLO'' = Some (sampled rest_skeleton 10 2)"
  by (simp add: the_engine_def catalog_def)

lemma animate_gesture_exact: "animate_gesture_in (\<lambda>x. x) = animate_gesture"
  unfolding animate_gesture_in_def animate_gesture_def float_div_def by (intro ext) simp

lemma round_half_even_error: "\<bar>of_int (round_half_even q) - q\<bar> \<le> 1 / 2"
  unfolding round_half_even_def Let_def by (auto simp: abs_if) linarith+

lemma ulp_pos: "0 < ulp x"
  by (simp add: ulp_def)

text \<open>The relative and the absolute part of the rounding error of a double.\<close>

definition half_eps :: real where
  "half_eps = 1 / 2 ^ 53"

definition half_tiny :: real where
  "half_tiny = 1 / 2 ^ 1075"

lemma ulp_le:
  assumes "x \<noteq> 0"
  shows "ulp x \<le> 2 * (\<bar>x\<bar> * half_eps + half_tiny)"
proof (cases "\<lfloor>log 2 \<bar>x\<bar>\<rfloor> - 52 \<le> - 1074")
  case True
  then have "ulp x = 2 powr (- 1074)"
    by (simp add: ulp_def max_def)
  also have "\<dots> = 2 * half_tiny"
    by (simp add: powr_minus_divide half_tiny_def)
  finally show ?thesis
    by (simp add: half_eps_def)
next
  case False
  then have "ulp x = 2 powr (of_int \<lfloor>log 2 \<bar>x\<bar>\<rfloor> - 52)"
    by (simp add: ulp_def max_def)
  also have "\<dots> = 2 powr of_int \<lfloor>log 2 \<bar>x\<bar>\<rfloor> * (2 * half_eps)"
    by (simp add: powr_diff half_eps_def)
  also have "\<dots> \<le> 2 powr log 2 \<bar>x\<bar> * (2 * half_eps)"
    by (intro mult_right_mono) (simp_all add: half_eps_def)
  also have "2 powr log 2 \<bar>x\<bar> = \<bar>x\<bar>"
    using assms by simp
  finally have "ulp x \<le> 2 * (\<bar>x\<bar> * half_eps)"
    by simp
  moreover have "0 \<le> half_tiny"
    by (simp add: half_tiny_def)
  ultimately show ?thesis
    by simp
qed

lemma fl_error: "\<bar>fl x - x\<bar> \<le> \<bar>x\<bar> * half_eps + half_tiny"
proof (cases "x = 0")
  case True
  then show ?thesis by (simp add: fl_def half_tiny_def)
next
  case False
  have "fl x - x = (of_int (round_half_even (x / ulp x)) - x / ulp x) * ulp x"
    using ulp_pos [of x] False by (simp add: fl_def field_simps)
  then have "\<bar>fl x - x\<bar> = \<bar>of_int (round_half_even (x / ulp x)) - x / ulp x\<bar> * ulp x"
    using ulp_pos [of x] by (simp add: abs_mult)
  also have "\<dots> \<le> 1 / 2 * ulp x"
    using round_half_even_error [of "x / ulp x"] ulp_pos [of x]
    by (intro mult_right_mono) simp_all
  also have "\<dots> \<le> 1 / 2 * (2 * (\<bar>x\<bar> * half_eps + half_tiny))"
    using ulp_le [OF False] by (intro mult_left_mono) simp_all
  finally show ?thesis
    by simp
qed

lemma scale_back_error:
  assumes "0 < T" and "0 < D"
  shows "\<bar>fl (T * fl (D / T)) - D\<bar> \<le> D / 2 ^ 51 + (T + 1) / 2 ^ 1074"
proof -
  define a where "a = half_eps"
  define b where "b = half_tiny"
  have a: "0 \<le> a" "a \<le> 1" and b: "0 \<le> b"
    by (simp_all add: a_def b_def half_eps_def half_tiny_def)
  define s where "s = fl (D / T)"
  define p where "p = T * s"
  have "\<bar>s - D / T\<bar> \<le> \<bar>D / T\<bar> * a + b"
    unfolding s_def a_def b_def by (rule fl_error)
  then have "T * \<bar>s - D / T\<bar> \<le> T * (D / T * a + b)"
    using assms by (intro mult_left_mono) simp_all
  moreover have "T * \<bar>s - D / T\<bar> = \<bar>p - D\<bar>"
  proof -
    have "T * \<bar>s - D / T\<bar> = \<bar>T * (s - D / T)\<bar>"
      using assms by (simp add: abs_mult)
    also have "T * (s - D / T) = p - D"
      using assms by (simp add: p_def right_diff_distrib)
    finally show ?thesis .
  qed
  moreover have "T * (D / T * a + b) = D * a + T * b"
    using assms by (simp add: distrib_left)
  ultimately have 1: "\<bar>p - D\<bar> \<le> D * a + T * b"
    by simp
  then have 2: "\<bar>p\<bar> \<le> D + (D * a + T * b)"
    using assms by linarith
  have "\<bar>fl p - p\<bar> \<le> \<bar>p\<bar> * a + b"
    unfolding a_def b_def by (rule fl_error)
  also have "\<bar>p\<bar> * a \<le> (D + (D * a + T * b)) * a"
    using 2 a by (intro mult_right_mono) simp_all
  finally have 3: "\<bar>fl p - p\<bar> \<le> (D + (D * a + T * b)) * a + b"
    by simp
  have "D * a * a \<le> D * a * 1"
    using a assms by (intro mult_left_mono) simp_all
  moreover have "T * b * a \<le> T * b * 1"
    using a b assms by (intro mult_left_mono) simp_all
  ultimately have 4: "(D + (D * a + T * b)) * a \<le> 2 * (D * a) + T * b"
    by (simp add: distrib_right)
  have 5: "0 \<le> D * a" and 6: "0 \<le> T * b"
    using a b assms by simp_all
  have "\<bar>fl p - D\<bar> \<le> \<bar>fl p - p\<bar> + \<bar>p - D\<bar>"
    by simp
  also have "\<dots> \<le> 4 * (D * a) + (2 * (T * b) + 2 * b)"
    using 1 3 4 5 6 b by linarith
  also have "\<dots> = 4 * (D * a) + (T + 1) * (2 * b)"
    by (simp add: distrib_right)
  finally have "\<bar>fl p - D\<bar> \<le> 4 * (D * a) + (T + 1) * (2 * b)" .
  also have "4 * (D * a) = D / 2 ^ 51"
    by (simp add: a_def half_eps_def)
  also have "(T + 1) * (2 * b) = (T + 1) / 2 ^ 1074"
    by (simp add: b_def half_tiny_def)
  finally show ?thesis
    by (simp add: p_def s_def)
qed


lemma fl_eval:
  assumes "2 powr of_int e \<le> \<bar>x\<bar>" and "\<bar>x\<bar> < 2 powr of_int (e + 1)"
    and "u = 2 powr of_int (max (e - 52) (- 1074))"
  shows "fl x = of_int (round_half_even (x / u)) * u"
proof -
  have "0 < (2::real) powr of_int e"
    by simp
  then have x: "x \<noteq> 0" and pos: "0 < \<bar>x\<bar>"
    using assms(1) by auto
  have "\<lfloor>log 2 \<bar>x\<bar>\<rfloor> = e"
    using assms(1,2) pos by (simp add: floor_log_eq_powr_iff)
  then show ?thesis
    using x by (simp add: fl_def ulp_def assms(3))
qed

lemma round_half_even_eval:
  assumes "of_int f \<le> q" and "q < of_int f + 1"
  shows "round_half_even q =
           (if q - of_int f < 1 / 2 then f else if 1 / 2 < q - of_int f then f + 1
            else if even f then f else f + 1)"
proof -
  have "\<lfloor>q\<rfloor> = f"
    using assms by (simp add: floor_unique)
  then show ?thesis
    by (simp add: round_half_even_def Let_def)
qed

lemma fl_two: "fl 2 = 2"
  by (subst fl_eval [where e = 1 and u = "2 powr (- 51)"])
     (simp_all add: powr_minus_divide round_half_even_eval [where f = "2 ^ 52"])

lemma fl_four: "fl 4 = 4"
  by (subst fl_eval [where e = 2 and u = "2 powr (- 50)"])
     (simp_all add: powr_minus_divide round_half_even_eval [where f = "2 ^ 52"])

lemma fl_underflow: "fl (1 / 2 ^ 1075) = 0"
  by (subst fl_eval [where e = "- 1075" and u = "2 powr (- 1074)"])
     (simp_all add: powr_minus_divide round_half_even_eval [where f = 0])

lemma fl_literal_1_2: "fl (12 / 10) = 5404319552844595 / 2 ^ 52"
  by (subst fl_eval [where e = 0 and u = "2 powr (- 52)"])
     (simp_all add: powr_minus_divide round_half_even_eval [where f = 5404319552844595])

lemma fl_literal_0_7: "fl (7 / 10) = 3152519739159347 / 2 ^ 52"
  by (subst fl_eval [where e = "- 1" and u = "2 powr (- 53)"])
     (simp_all add: powr_minus_divide round_half_even_eval [where f = 6305039478318694])


lemma fl_zero: "fl 0 = 0"
  by (simp add: fl_def)

lemma fl_quotient_0_7_1_2:
  "fl ((3152519739159347 / 2 ^ 52) / (5404319552844595 / 2 ^ 52)) = 5254199565265579 / 2 ^ 53"
  by (subst fl_eval [where e = "- 1" and u = "2 powr (- 53)"])
     (simp_all add: powr_minus_divide round_half_even_eval [where f = 5254199565265578])

lemma fl_product_1_2:
  "fl (5404319552844595 / 2 ^ 52 * (5254199565265579 / 2 ^ 53)) = 6305039478318695 / 2 ^ 53"
  by (subst fl_eval [where e = "- 1" and u = "2 powr (- 53)"])
     (simp_all add: powr_minus_divide round_half_even_eval [where f = 6305039478318694])

lemma animate_gesture_in_unscaled:
  assumes "map_of (gesture_database self) gesture_name = Some frames"
  shows "animate_gesture_in rnd self gesture_name None = Inr (frames, [])"
  using assms by (simp add: animate_gesture_in_def truthy_def)

lemma animate_gesture_in_scaled:
  assumes "map_of (gesture_database self) gesture_name = Some frames"
    and "frames \<noteq> []" and "timestamp (last frames) \<noteq> 0" and "D \<noteq> 0"
  shows "animate_gesture_in rnd self gesture_name (Some D) =
           Inr (map (\<lambda>frame.
                  \<lparr>timestamp = rnd (timestamp frame * rnd (D / timestamp (last frames))),
                   joints = joints frame\<rparr>) frames, [])"
  using assms
  by (simp add: animate_gesture_in_def truthy_def last_item_def then_do_def)

lemma catalog_final:
  assumes "map_of (catalog sk) gesture_name = Some g"
  shows "1 \<le> timestamp (last g)"
  using assms by (auto simp: catalog_def sampled_last split: if_splits)

text \<open>An engine whose NO gesture ends, as the one the program builds does, at the double
  nearest 1.2.\<close>

definition double_no_engine :: ISLAvatar where
  "double_no_engine =
     \<lparr>skeleton = rest_skeleton,
      gesture_database =
        [(''NO'', [\<lparr>timestamp = 0, joints = rest_skeleton\<rparr>,
                  \<lparr>timestamp = 5404319552844595 / 2 ^ 52, joints = rest_skeleton\<rparr>])],
      current_pose = [], animation_speed = 1\<rparr>"

text \<open>
  C3, in the arithmetic of the program. For every gesture name of the catalog (the one
  this model builds, and any whose gestures are non-empty, with timestamps that start at 0
  or later, never decrease and end at 1 or later, as the catalog of the program with its
  rounded timestamps is), playing it with no duration
  returns the catalog's frames as they are; playing it with a duration \<open>D\<close>, positive and at
  most 2 to the power of 1023, returns as many frames, each with the joints of the catalog
  frame and with the timestamp of the catalog frame multiplied, in doubles, by the quotient,
  in doubles, of \<open>D\<close> by the final timestamp \<open>T\<close> of the catalog sequence. The final timestamp
  of the result is \<open>D\<close> up to rounding: it differs from \<open>D\<close> by at most
  \<open>D / 2^51 + (T + 1) / 2^1074\<close>, and it is \<open>D\<close> where \<open>D\<close> is a double and the quotient is exact.
\<close>

theorem animate_gesture_catalog:
  assumes "init = Inr (av, h) \<or>
           (\<forall>name g. map_of (gesture_database av) name = Some g \<longrightarrow>
              g \<noteq> [] \<and> sorted (map timestamp g) \<and> 0 \<le> timestamp (hd g) \<and>
              1 \<le> timestamp (last g))"
    and "map_of (gesture_database av) gesture_name = Some frames"
    and "0 < D" and "D \<le> 2 ^ 1023"
  shows "animate_gesture_in fl av gesture_name None = Inr (frames, []) \<and>
         animate_gesture_in fl av gesture_name (Some D) =
           Inr (map (\<lambda>frame.
                  \<lparr>timestamp = fl (timestamp frame * fl (D / timestamp (last frames))),
                   joints = joints frame\<rparr>) frames, []) \<and>
         \<bar>timestamp (last (map (\<lambda>frame.
                  \<lparr>timestamp = fl (timestamp frame * fl (D / timestamp (last frames))),
                   joints = joints frame\<rparr>) frames)) - D\<bar>
           \<le> D / 2 ^ 51 + (timestamp (last frames) + 1) / 2 ^ 1074 \<and>
         (fl (D / timestamp (last frames)) = D / timestamp (last frames) \<and> fl D = D \<longrightarrow>
            timestamp (last (map (\<lambda>frame.
                  \<lparr>timestamp = fl (timestamp frame * fl (D / timestamp (last frames))),
                   joints = joints frame\<rparr>) frames)) = D)"
proof -
  have "frames \<noteq> [] \<and> 1 \<le> timestamp (last frames)"
    using assms(1)
  proof
    assume i: "init = Inr (av, h)"
    then have "map_of (catalog rest_skeleton) gesture_name = Some frames"
      using assms(2) init_cases(1) [OF i] by (simp add: the_engine_def)
    then show ?thesis
      using engine_gesture(1) [OF i assms(2)] by (simp add: catalog_final)
  next
    assume "\<forall>name g. map_of (gesture_database av) name = Some g \<longrightarrow>
              g \<noteq> [] \<and> sorted (map timestamp g) \<and> 0 \<le> timestamp (hd g) \<and>
              1 \<le> timestamp (last g)"
    then show ?thesis
      using assms(2) by blast
  qed
  then have ne: "frames \<noteq> []" and T: "0 < timestamp (last frames)"
    by simp_all
  have final: "timestamp (last (map (\<lambda>frame.
                  \<lparr>timestamp = fl (timestamp frame * fl (D / timestamp (last frames))),
                   joints = joints frame\<rparr>) frames)) =
        fl (timestamp (last frames) * fl (D / timestamp (last frames)))"
    using ne by (simp add: last_map)
  have "animate_gesture_in fl av gesture_name (Some D) =
           Inr (map (\<lambda>frame.
                  \<lparr>timestamp = fl (timestamp frame * fl (D / timestamp (last frames))),
                   joints = joints frame\<rparr>) frames, [])"
    using assms(2,3) ne T by (intro animate_gesture_in_scaled) simp_all
  moreover have "\<bar>fl (timestamp (last frames) * fl (D / timestamp (last frames))) - D\<bar>
           \<le> D / 2 ^ 51 + (timestamp (last frames) + 1) / 2 ^ 1074"
    using T assms(3) by (rule scale_back_error)
  moreover have "fl (timestamp (last frames) * fl (D / timestamp (last frames))) = D"
    if "fl (D / timestamp (last frames)) = D / timestamp (last frames) \<and> fl D = D"
    using that T by simp
  ultimately show ?thesis
    unfolding final using assms(2) by (simp add: animate_gesture_in_unscaled)
qed

theorem animate_gesture_catalog_witness:
  "init = Inr (the_engine, built_store) \<and>
   map_of (gesture_database the_engine) ''HELLO'' = Some (sampled rest_skeleton 10 2) \<and>
   (0::real) < 4 \<and> (4::real) \<le> 2 ^ 1023 \<and>
   fl (4 / 2) = 4 / 2 \<and> fl 4 = 4 \<and>
   animate_gesture_in fl the_engine ''HELLO'' None = Inr (sampled rest_skeleton 10 2, []) \<and>
   animate_gesture_in fl the_engine ''HELLO'' (Some 4) =
     Inr (map (\<lambda>frame. \<lparr>timestamp = fl (timestamp frame * 2), joints = joints frame\<rparr>)
            (sampled rest_skeleton 10 2), []) \<and>
   timestamp (last (map (\<lambda>frame. \<lparr>timestamp = fl (timestamp frame * 2), joints = joints frame\<rparr>)
            (sampled rest_skeleton 10 2))) = 4"
proof -
  have t: "timestamp (last (sampled rest_skeleton 10 2)) = 2"
    by (simp add: sampled_last)
  have d: "(4::real) \<le> 2 ^ 1023"
    by simp
  show ?thesis
    using animate_gesture_catalog [OF disjI1 [OF init_eq] hello_frames, of 4] d
    by (simp add: init_eq hello_frames t fl_two fl_four)
qed

text \<open>
  C3 as stated fails, where it says the final timestamp is \<open>D\<close>. HELLO, whose final timestamp
  is 2, played with the smallest positive double as duration: the quotient rounds to 0 and
  every timestamp of the result is 0. And NO played with the duration 0.7: the program reads
  1.2 and 0.7 as the doubles nearest them, and the final timestamp of the result is the
  next double after 0.7, which prints as 0.7000000000000001.
\<close>

theorem scaled_final_is_not_the_duration:
  "init = Inr (the_engine, built_store) \<and>
   map_of (gesture_database the_engine) ''HELLO'' = Some (sampled rest_skeleton 10 2) \<and>
   (0::real) < 1 / 2 ^ 1074 \<and>
   animate_gesture_in fl the_engine ''HELLO'' (Some (1 / 2 ^ 1074)) =
     Inr (map (\<lambda>frame. \<lparr>timestamp = 0, joints = joints frame\<rparr>)
            (sampled rest_skeleton 10 2), []) \<and>
   fl (12 / 10) = 5404319552844595 / 2 ^ 52 \<and>
   fl (7 / 10) = 3152519739159347 / 2 ^ 52 \<and>
   animate_gesture_in fl double_no_engine ''NO'' (Some (3152519739159347 / 2 ^ 52)) =
     Inr ([\<lparr>timestamp = 0, joints = rest_skeleton\<rparr>,
           \<lparr>timestamp = 6305039478318695 / 2 ^ 53, joints = rest_skeleton\<rparr>], []) \<and>
   (6305039478318695 / 2 ^ 53 :: real) \<noteq> 3152519739159347 / 2 ^ 52"
proof -
  have t: "timestamp (last (sampled rest_skeleton 10 2)) = 2"
    by (simp add: sampled_last)
  have "animate_gesture_in fl the_engine ''HELLO'' (Some (1 / 2 ^ 1074)) =
      Inr (map (\<lambda>frame.
             \<lparr>timestamp = fl (timestamp frame *
                 fl (1 / 2 ^ 1074 / timestamp (last (sampled rest_skeleton 10 2)))),
              joints = joints frame\<rparr>) (sampled rest_skeleton 10 2), [])"
    by (rule animate_gesture_in_scaled [OF hello_frames]) (simp_all add: sampled_nonempty t)
  moreover have "fl (1 / 2 ^ 1074 / 2) = 0"
    using fl_underflow by simp
  ultimately have a: "animate_gesture_in fl the_engine ''HELLO'' (Some (1 / 2 ^ 1074)) =
     Inr (map (\<lambda>frame. \<lparr>timestamp = 0, joints = joints frame\<rparr>)
            (sampled rest_skeleton 10 2), [])"
    by (simp add: t fl_zero)
  define T :: real where "T = 5404319552844595 / 2 ^ 52"
  define D :: real where "D = 3152519739159347 / 2 ^ 52"
  have TD: "fl (T * fl (D / T)) = 6305039478318695 / 2 ^ 53"
    unfolding T_def D_def fl_quotient_0_7_1_2 fl_product_1_2 by (rule refl)
  have nz: "T \<noteq> 0" "D \<noteq> 0"
    by (simp_all add: T_def D_def)
  have no: "map_of (gesture_database double_no_engine) ''NO'' =
      Some [\<lparr>timestamp = 0, joints = rest_skeleton\<rparr>, \<lparr>timestamp = T, joints = rest_skeleton\<rparr>]"
    by (simp add: double_no_engine_def T_def)
  have "animate_gesture_in fl double_no_engine ''NO'' (Some D) =
      Inr (map (\<lambda>frame.
             \<lparr>timestamp = fl (timestamp frame *
                 fl (D / timestamp (last
                   [\<lparr>timestamp = 0, joints = rest_skeleton\<rparr>,
                    \<lparr>timestamp = T, joints = rest_skeleton\<rparr>]))),
              joints = joints frame\<rparr>)
             [\<lparr>timestamp = 0, joints = rest_skeleton\<rparr>,
              \<lparr>timestamp = T, joints = rest_skeleton\<rparr>], [])"
    by (rule animate_gesture_in_scaled [OF no]) (simp_all add: nz)
  then have "animate_gesture_in fl double_no_engine ''NO'' (Some D) =
     Inr ([\<lparr>timestamp = 0, joints = rest_skeleton\<rparr>,
           \<lparr>timestamp = 6305039478318695 / 2 ^ 53, joints = rest_skeleton\<rparr>], [])"
    by (simp add: TD fl_zero)
  then have b: "animate_gesture_in fl double_no_engine ''NO'' (Some (3152519739159347 / 2 ^ 52)) =
     Inr ([\<lparr>timestamp = 0, joints = rest_skeleton\<rparr>,
           \<lparr>timestamp = 6305039478318695 / 2 ^ 53, joints = rest_skeleton\<rparr>], [])"
    by (simp add: D_def)
  show ?thesis
    using a b fl_literal_1_2 fl_literal_0_7 by (simp add: init_eq hello_frames)
qed

text \<open>
  C4, as the code has it. No duration is rejected. For every gesture name of the catalog,
  the duration 0 fails the truth test and the catalog's frames are returned as they are; a
  duration \<open>D < 0\<close> scales every timestamp by \<open>D\<close> divided by the final timestamp, as a
  positive one does, and leaves the joints as they are.
\<close>

theorem animate_gesture_nonpositive:
  assumes "init = Inr (av, h)" and "map_of (gesture_database av) gesture_name = Some frames"
    and "D \<le> 0"
  shows "animate_gesture av gesture_name (Some D) =
           Inr (if D = 0 then frames
                else map (\<lambda>frame. \<lparr>timestamp = timestamp frame * (D / timestamp (last frames)),
                                   joints = joints frame\<rparr>) frames, [])"
proof (cases "D = 0")
  case True
  then show ?thesis
    using assms(2) by (simp add: animate_gesture_unscaled)
next
  case False
  note g = engine_gesture [OF assms(1,2)]
  have "animate_gesture av gesture_name (Some D) =
          Inr (scaled (D / timestamp (last frames)) frames, [])"
    using assms(2) g(1,2) False by (intro animate_gesture_scaled) simp_all
  then show ?thesis
    using False by (simp add: scaled_def)
qed

theorem animate_gesture_nonpositive_witness:
  "init = Inr (the_engine, built_store) \<and>
   map_of (gesture_database the_engine) ''YES'' = Some (sampled rest_skeleton 8 1) \<and>
   (-2::real) \<le> 0 \<and>
   animate_gesture the_engine ''YES'' (Some (-2)) =
     Inr (map (\<lambda>t. \<lparr>timestamp = t, joints = rest_skeleton\<rparr>)
            [0, 0, -2/7, -4/7, -6/7, -8/7, -10/7, -12/7, -2], [])"
proof -
  have t: "timestamp (last (sampled rest_skeleton 8 1)) = 1"
    by (simp add: sampled_last)
  show ?thesis
    using animate_gesture_nonpositive [OF init_eq yes_frames, of "-2"]
    by (simp add: init_eq yes_frames t) (simp add: sampled_def upt_unfold)
qed

text \<open>C4 as stated fails: YES played with the duration 0 returns its catalog frames, and
  with the duration -1 the frames at the negated timestamps; neither call raises.\<close>

theorem animate_gesture_zero_not_rejected:
  "init = Inr (the_engine, built_store) \<and>
   map_of (gesture_database the_engine) ''YES'' = Some (sampled rest_skeleton 8 1) \<and>
   animate_gesture the_engine ''YES'' (Some 0) = Inr (sampled rest_skeleton 8 1, []) \<and>
   animate_gesture the_engine ''YES'' (Some (-1)) =
     Inr (map (\<lambda>t. \<lparr>timestamp = t, joints = rest_skeleton\<rparr>)
            [0, 0, -1/7, -2/7, -3/7, -4/7, -5/7, -6/7, -1], [])"
proof -
  have t: "timestamp (last (sampled rest_skeleton 8 1)) = 1"
    by (simp add: sampled_last)
  have "animate_gesture the_engine ''YES'' (Some (-1)) =
          Inr (scaled (-1 / timestamp (last (sampled rest_skeleton 8 1)))
                 (sampled rest_skeleton 8 1), [])"
    by (rule animate_gesture_scaled [OF yes_frames]) (simp_all add: sampled_nonempty t)
  then show ?thesis
    by (simp add: init_eq yes_frames animate_gesture_unscaled [OF yes_frames] t)
       (simp add: scaled_def sampled_def upt_unfold)
qed

text \<open>
  C5. For every name that is not in the catalog, with or without a duration, playing it
  returns the empty frame sequence and logs one warning; it does not raise.
\<close>

theorem animate_gesture_not_found:
  assumes "map_of (gesture_database self) gesture_name = None"
  shows "animate_gesture self gesture_name duration = Inr ([], [not_found_warning gesture_name])"
  using assms by (simp add: animate_gesture_def)

theorem animate_gesture_not_found_witness:
  "map_of (gesture_database the_engine) ''NONEXISTENT'' = None \<and>
   animate_gesture the_engine ''NONEXISTENT'' None =
     Inr ([], [''Gesture '' @ [CHR 0x27] @ ''NONEXISTENT'' @ [CHR 0x27] @ '' not found in database'']) \<and>
   animate_gesture the_engine ''NONEXISTENT'' (Some 2) =
     Inr ([], [''Gesture '' @ [CHR 0x27] @ ''NONEXISTENT'' @ [CHR 0x27] @ '' not found in database''])"
proof -
  have a: "map_of (gesture_database the_engine) ''NONEXISTENT'' = None"
    by (simp add: the_engine_def catalog_def)
  show ?thesis
    using a animate_gesture_not_found [OF a, of None] animate_gesture_not_found [OF a, of "Some 2"]
    by (simp add: not_found_warning_def)
qed

subsection \<open>Composing a text (C6, C7)\<close>

text \<open>The frames of a gesture, each moved by the clock.\<close>

definition shifted :: "real \<Rightarrow> GestureFrame list \<Rightarrow> GestureFrame list" where
  "shifted c frames =
     map (\<lambda>frame. \<lparr>timestamp = timestamp frame + c, joints = joints frame\<rparr>) frames"

lemma for_each_append:
  "for_each (xs @ ys) body s = then_do (for_each xs body s) (for_each ys body)"
  by (induction xs arbitrary: s) (simp_all add: then_do_def split: sum.splits)

lemma for_each_skip:
  assumes "\<And>x. x \<in> set xs \<Longrightarrow> body x s = Inr s"
  shows "for_each xs body s = Inr s"
  using assms by (induction xs) simp_all

lemma letter_step_known:
  assumes "map_of (gesture_database self) [letter] = Some g" and "g \<noteq> []"
  shows "letter_step self letter (fs, c, msgs) =
           Inr (fs @ shifted c g, c + (timestamp (last g) + 0.2), msgs)"
  using assms
  by (simp add: letter_step_def animate_gesture_unscaled then_do_def last_item_def shifted_def)

lemma letter_step_unknown:
  assumes "map_of (gesture_database self) [letter] = None"
  shows "letter_step self letter s = Inr s"
  using assms by (cases s) (simp add: letter_step_def)

lemma word_step_known:
  assumes "map_of (gesture_database self) word = Some g" and "g \<noteq> []"
  shows "word_step self word (fs, c, msgs) =
           Inr (fs @ shifted c g, c + (timestamp (last g) + 0.5), msgs)"
  using assms
  by (simp add: word_step_def animate_gesture_unscaled then_do_def last_item_def shifted_def)

lemma word_step_unknown:
  assumes "map_of (gesture_database self) word = None"
  shows "word_step self word s = for_each word (letter_step self) s"
  using assms by (cases s) (simp add: word_step_def)

lemma sorted_bounds:
  assumes "sorted xs" and "x \<in> set xs"
  shows "hd xs \<le> x" and "x \<le> last xs"
proof -
  obtain i where i: "i < length xs" "xs ! i = x"
    using assms(2) by (auto simp: in_set_conv_nth)
  then have ne: "xs \<noteq> []" by auto
  have "xs ! 0 \<le> xs ! i"
    using assms(1) i(1) by (simp add: sorted_iff_nth_mono)
  then show "hd xs \<le> x"
    using ne i(2) by (simp add: hd_conv_nth)
  have "xs ! i \<le> xs ! (length xs - 1)"
    using assms(1) i(1) by (intro sorted_nth_mono) auto
  then show "x \<le> last xs"
    using ne i(2) by (simp add: last_conv_nth)
qed

text \<open>A gesture as the data model has it: frames, at times that start at 0 or later and
  never decrease.\<close>

definition gesture_ok :: "GestureFrame list \<Rightarrow> bool" where
  "gesture_ok g = (g \<noteq> [] \<and> sorted (map timestamp g) \<and> 0 \<le> timestamp (hd g))"

lemma gesture_ok_bounds:
  assumes "gesture_ok g" and "f \<in> set g"
  shows "0 \<le> timestamp f" and "timestamp f \<le> timestamp (last g)"
proof -
  have s: "sorted (map timestamp g)" and ne: "g \<noteq> []" and z: "0 \<le> timestamp (hd g)"
    using assms(1) by (simp_all add: gesture_ok_def)
  have m: "timestamp f \<in> set (map timestamp g)"
    using assms(2) by simp
  have "hd (map timestamp g) \<le> timestamp f" and "timestamp f \<le> last (map timestamp g)"
    using sorted_bounds [OF s m] by simp_all
  then show "0 \<le> timestamp f" and "timestamp f \<le> timestamp (last g)"
    using ne z by (simp_all add: hd_map last_map)
qed

lemma shifted_sorted:
  "sorted (map timestamp g) \<Longrightarrow> sorted (map timestamp (shifted c g))"
  by (simp add: shifted_def sorted_map comp_def)

lemma compose_words:
  assumes ok: "\<And>word g. map_of (gesture_database self) word = Some g \<Longrightarrow> gesture_ok g"
    and noletter: "\<And>letter. map_of (gesture_database self) [letter] = None"
  shows "\<exists>fs' c'. for_each ws (word_step self) (fs, c, msgs) = Inr (fs @ fs', c', msgs) \<and>
           sorted (map timestamp fs') \<and>
           (\<forall>f \<in> set fs'. c \<le> timestamp f \<and> timestamp f + 0.5 \<le> c') \<and> c \<le> c'"
proof (induction ws arbitrary: fs c)
  case Nil
  show ?case by simp
next
  case (Cons w ws)
  show ?case
  proof (cases "map_of (gesture_database self) w")
    case None
    have "word_step self w (fs, c, msgs) = Inr (fs, c, msgs)"
      by (simp add: word_step_unknown [OF None] for_each_skip letter_step_unknown noletter)
    then show ?thesis
      using Cons.IH [of fs c] by simp
  next
    case (Some g)
    have g: "gesture_ok g"
      by (rule ok [OF Some])
    then have ne: "g \<noteq> []"
      by (simp add: gesture_ok_def)
    define c1 where "c1 = c + (timestamp (last g) + 0.5)"
    have step: "word_step self w (fs, c, msgs) = Inr (fs @ shifted c g, c1, msgs)"
      by (simp add: word_step_known [OF Some ne] c1_def)
    obtain fs2 c' where rest: "for_each ws (word_step self) (fs @ shifted c g, c1, msgs) =
          Inr ((fs @ shifted c g) @ fs2, c', msgs)"
      and s2: "sorted (map timestamp fs2)"
      and b2: "\<forall>f \<in> set fs2. c1 \<le> timestamp f \<and> timestamp f + 0.5 \<le> c'"
      and le: "c1 \<le> c'"
      using Cons.IH [of "fs @ shifted c g" c1] by blast
    have "0 \<le> timestamp (last g)"
      using gesture_ok_bounds(1) [OF g, of "last g"] ne by simp
    then have cc1: "c \<le> c1"
      by (simp add: c1_def)
    have b1: "\<forall>f \<in> set (shifted c g). c \<le> timestamp f \<and> timestamp f + 0.5 \<le> c1"
      using gesture_ok_bounds [OF g] by (auto simp: shifted_def c1_def)
    have s1: "sorted (map timestamp (shifted c g))"
      using g by (simp add: gesture_ok_def shifted_sorted)
    have "sorted (map timestamp (shifted c g @ fs2))"
      unfolding map_append sorted_append
    proof (intro conjI ballI)
      fix x y
      assume "x \<in> set (map timestamp (shifted c g))" and "y \<in> set (map timestamp fs2)"
      then obtain f1 f2 where "f1 \<in> set (shifted c g)" "x = timestamp f1"
        and "f2 \<in> set fs2" "y = timestamp f2"
        by auto
      then have "x + 0.5 \<le> c1" and "c1 \<le> y"
        using b1 b2 by simp_all
      then show "x \<le> y" by simp
    qed (rule s1, rule s2)
    moreover have "\<forall>f \<in> set (shifted c g @ fs2). c \<le> timestamp f \<and> timestamp f + 0.5 \<le> c'"
    proof
      fix f
      assume "f \<in> set (shifted c g @ fs2)"
      then consider "f \<in> set (shifted c g)" | "f \<in> set fs2"
        by auto
      then show "c \<le> timestamp f \<and> timestamp f + 0.5 \<le> c'"
      proof cases
        case 1
        then have "c \<le> timestamp f" and "timestamp f + 0.5 \<le> c1"
          using b1 by simp_all
        then show ?thesis using le by simp
      next
        case 2
        then have "c1 \<le> timestamp f" and "timestamp f + 0.5 \<le> c'"
          using b2 by simp_all
        then show ?thesis using cc1 by simp
      qed
    qed
    moreover have "c \<le> c'"
      using le cc1 by simp
    moreover have "for_each (w # ws) (word_step self) (fs, c, msgs) =
        Inr (fs @ (shifted c g @ fs2), c', msgs)"
      using step rest by simp
    ultimately show ?thesis
      by blast
  qed
qed

lemma engine_ok:
  assumes "init = Inr (av, h)" and "map_of (gesture_database av) word = Some g"
  shows "gesture_ok g"
  using engine_gesture [OF assms] by (simp add: gesture_ok_def)

lemma engine_no_letter:
  assumes "init = Inr (av, h)"
  shows "map_of (gesture_database av) [letter] = None"
  using init_cases(1) [OF assms] by (simp add: the_engine_def catalog_no_letter)

lemma engine_compose:
  assumes "init = Inr (av, h)"
  shows "\<exists>fs' c'. for_each ws (word_step av) (fs, c, msgs) = Inr (fs @ fs', c', msgs) \<and>
           sorted (map timestamp fs') \<and>
           (\<forall>f \<in> set fs'. c \<le> timestamp f \<and> timestamp f + 0.5 \<le> c') \<and> c \<le> c'"
  by (rule compose_words) (rule engine_ok [OF assms], assumption, rule engine_no_letter [OF assms])

lemma tokens_hello_yes: "split (upper ''HELLO YES'') = [''HELLO'', ''YES'']"
  by (simp add: split_def upper_def upper_char_def is_space_def)

lemma animate_text_hello_yes:
  "animate_text the_engine ''HELLO YES'' =
     Inr (sampled rest_skeleton 10 2 @ shifted 2.5 (sampled rest_skeleton 8 1), [])"
proof -
  have "word_step the_engine ''HELLO'' ([], 0, []) =
          Inr ([] @ shifted 0 (sampled rest_skeleton 10 2),
               0 + (timestamp (last (sampled rest_skeleton 10 2)) + 0.5), [])"
    by (rule word_step_known [OF hello_frames sampled_nonempty])
  moreover have "shifted 0 (sampled rest_skeleton 10 2) = sampled rest_skeleton 10 2"
    by (simp add: shifted_def sampled_def)
  ultimately have 1: "word_step the_engine ''HELLO'' ([], 0, []) =
          Inr (sampled rest_skeleton 10 2, 2.5, [])"
    by (simp add: sampled_last)
  have 2: "word_step the_engine ''YES'' (sampled rest_skeleton 10 2, 2.5, []) =
          Inr (sampled rest_skeleton 10 2 @ shifted 2.5 (sampled rest_skeleton 8 1),
               2.5 + (timestamp (last (sampled rest_skeleton 8 1)) + 0.5), [])"
    by (rule word_step_known [OF yes_frames sampled_nonempty])
  show ?thesis
    using 1 2 by (simp add: animate_text_def tokens_hello_yes then_do_def)
qed

text \<open>
  C6, with "at least" for "exceeds". For every input text, the frames \<open>animate_text\<close>
  returns have timestamps that never decrease; the tokens come in their order from left to
  right without overlap: wherever the token list is cut in two, the frames of the first part
  come first and end at least 0.5 before the clock at the cut, and the frames of the second
  part start at that clock or later; after each word that names a gesture the clock advances
  by the final timestamp of the gesture plus 0.5; and for "HELLO YES" every timestamp of the
  YES part is at least every timestamp of the HELLO part plus 0.5.
\<close>

theorem animate_text_ordered:
  assumes "init = Inr (av, h)"
  shows "(\<exists>frames. animate_text av text = Inr (frames, []) \<and> sorted (map timestamp frames)) \<and>
         (\<forall>ws1 ws2. split (upper text) = ws1 @ ws2 \<longrightarrow>
            (\<exists>fs1 c1 fs2.
               for_each ws1 (word_step av) ([], 0, []) = Inr (fs1, c1, []) \<and>
               animate_text av text = Inr (fs1 @ fs2, []) \<and>
               (\<forall>f \<in> set fs1. timestamp f + 0.5 \<le> c1) \<and>
               (\<forall>f \<in> set fs2. c1 \<le> timestamp f))) \<and>
         (\<forall>word g fs c msgs. map_of (gesture_database av) word = Some g \<longrightarrow>
            word_step av word (fs, c, msgs) =
              Inr (fs @ shifted c g, c + (timestamp (last g) + 0.5), msgs)) \<and>
         (\<exists>hello yes.
            map_of (gesture_database av) ''HELLO'' = Some hello \<and>
            map_of (gesture_database av) ''YES'' = Some yes \<and>
            animate_text av ''HELLO YES'' = Inr (hello @ shifted 2.5 yes, []) \<and>
            (\<forall>hf \<in> set hello. \<forall>yf \<in> set (shifted 2.5 yes).
               timestamp hf + 0.5 \<le> timestamp yf))"
proof (intro conjI allI impI)
  show "\<exists>frames. animate_text av text = Inr (frames, []) \<and> sorted (map timestamp frames)"
    using engine_compose [OF assms, of "split (upper text)" "[]" 0 "[]"]
    by (auto simp: animate_text_def then_do_def)
next
  fix ws1 ws2
  assume sp: "split (upper text) = ws1 @ ws2"
  obtain fs1 c1 where 1: "for_each ws1 (word_step av) ([], 0, []) = Inr ([] @ fs1, c1, [])"
    and b1: "\<forall>f \<in> set fs1. 0 \<le> timestamp f \<and> timestamp f + 0.5 \<le> c1"
    using engine_compose [OF assms, of ws1 "[]" 0 "[]"] by blast
  obtain fs2 c2 where 2: "for_each ws2 (word_step av) (fs1, c1, []) = Inr (fs1 @ fs2, c2, [])"
    and b2: "\<forall>f \<in> set fs2. c1 \<le> timestamp f \<and> timestamp f + 0.5 \<le> c2"
    using engine_compose [OF assms, of ws2 fs1 c1 "[]"] by blast
  have "animate_text av text = Inr (fs1 @ fs2, [])"
    using 1 2 by (simp add: animate_text_def sp for_each_append then_do_def)
  then show "\<exists>fs1 c1 fs2.
               for_each ws1 (word_step av) ([], 0, []) = Inr (fs1, c1, []) \<and>
               animate_text av text = Inr (fs1 @ fs2, []) \<and>
               (\<forall>f \<in> set fs1. timestamp f + 0.5 \<le> c1) \<and>
               (\<forall>f \<in> set fs2. c1 \<le> timestamp f)"
    using 1 b1 b2 by (intro exI [of _ fs1] exI [of _ c1] exI [of _ fs2]) simp
next
  fix word g fs c msgs
  assume g: "map_of (gesture_database av) word = Some g"
  have "g \<noteq> []"
    using engine_ok [OF assms g] by (simp add: gesture_ok_def)
  then show "word_step av word (fs, c, msgs) =
              Inr (fs @ shifted c g, c + (timestamp (last g) + 0.5), msgs)"
    by (rule word_step_known [OF g])
next
  have av: "av = the_engine"
    using assms by (simp add: init_eq)
  have "\<forall>hf \<in> set (sampled rest_skeleton 10 2). \<forall>yf \<in> set (shifted 2.5 (sampled rest_skeleton 8 1)).
           timestamp hf + 0.5 \<le> timestamp yf"
  proof (intro ballI)
    fix hf yf
    assume hf: "hf \<in> set (sampled rest_skeleton 10 2)"
      and yf: "yf \<in> set (shifted 2.5 (sampled rest_skeleton 8 1))"
    have "gesture_ok (sampled rest_skeleton 10 2)" and y: "gesture_ok (sampled rest_skeleton 8 1)"
      by (simp_all add: gesture_ok_def sampled_nonempty sampled_sorted sampled_hd)
    then have "timestamp hf \<le> 2"
      using gesture_ok_bounds(2) [OF _ hf] by (simp add: sampled_last)
    moreover obtain f where "f \<in> set (sampled rest_skeleton 8 1)" and "timestamp yf = timestamp f + 2.5"
      using yf by (auto simp: shifted_def)
    then have "2.5 \<le> timestamp yf"
      using gesture_ok_bounds(1) [OF y] by simp
    ultimately show "timestamp hf + 0.5 \<le> timestamp yf"
      by simp
  qed
  then show "\<exists>hello yes.
            map_of (gesture_database av) ''HELLO'' = Some hello \<and>
            map_of (gesture_database av) ''YES'' = Some yes \<and>
            animate_text av ''HELLO YES'' = Inr (hello @ shifted 2.5 yes, []) \<and>
            (\<forall>hf \<in> set hello. \<forall>yf \<in> set (shifted 2.5 yes).
               timestamp hf + 0.5 \<le> timestamp yf)"
    unfolding av using hello_frames yes_frames animate_text_hello_yes by blast
qed

theorem animate_text_ordered_witness:
  "init = Inr (the_engine, built_store) \<and>
   split (upper ''HELLO YES'') = [''HELLO''] @ [''YES''] \<and>
   map_of (gesture_database the_engine) ''YES'' = Some (sampled rest_skeleton 8 1) \<and>
   word_step the_engine ''YES'' (sampled rest_skeleton 10 2, 2.5, []) =
     Inr (sampled rest_skeleton 10 2 @ shifted 2.5 (sampled rest_skeleton 8 1), 4, []) \<and>
   animate_text the_engine ''HELLO YES'' =
     Inr (sampled rest_skeleton 10 2 @ shifted 2.5 (sampled rest_skeleton 8 1), []) \<and>
   sorted (map timestamp (sampled rest_skeleton 10 2 @ shifted 2.5 (sampled rest_skeleton 8 1)))"
proof -
  have t: "timestamp (last (sampled rest_skeleton 8 1)) = 1"
    by (simp add: sampled_last)
  show ?thesis
    using animate_text_ordered [OF init_eq, of "''HELLO YES''"] yes_frames t
    by (simp add: init_eq tokens_hello_yes animate_text_hello_yes)
qed

text \<open>C6 as stated fails: in "HELLO YES" the first frame of YES is at 2.5, which is the
  last timestamp of HELLO, 2, plus the pause, and does not exceed it.\<close>

theorem hello_yes_meet_at_the_pause:
  "init = Inr (the_engine, built_store) \<and>
   animate_text the_engine ''HELLO YES'' =
     Inr (sampled rest_skeleton 10 2 @ shifted 2.5 (sampled rest_skeleton 8 1), []) \<and>
   timestamp (last (sampled rest_skeleton 10 2)) + 0.5 = 2.5 \<and>
   timestamp (hd (shifted 2.5 (sampled rest_skeleton 8 1))) = 2.5 \<and>
   \<not> timestamp (last (sampled rest_skeleton 10 2)) + 0.5 <
       timestamp (hd (shifted 2.5 (sampled rest_skeleton 8 1)))"
  by (simp add: init_eq animate_text_hello_yes sampled_last)
     (simp add: shifted_def sampled_def)

text \<open>
  The spelling of a word as the specification words it, to compare the code with: letter by
  letter, a letter that names a gesture adds the frames of the gesture moved by the clock
  and advances the clock by the final timestamp of the gesture plus 0.2; any other letter
  adds nothing and leaves the clock.
\<close>

fun spelled :: "(string \<times> GestureFrame list) list \<Rightarrow> string \<Rightarrow> real \<Rightarrow> GestureFrame list \<times> real" where
  "spelled db [] clock = ([], clock)"
| "spelled db (ch # rest) clock =
     (case map_of db [ch] of
        None \<Rightarrow> spelled db rest clock
      | Some g \<Rightarrow>
          (case spelled db rest (clock + (timestamp (last g) + 0.2)) of
             (fs, clock') \<Rightarrow> (shifted clock g @ fs, clock')))"

lemma spell_letters:
  assumes "\<And>name g. map_of (gesture_database self) name = Some g \<Longrightarrow> g \<noteq> []"
  shows "for_each word (letter_step self) (fs, c, msgs) =
           Inr (fs @ fst (spelled (gesture_database self) word c),
                snd (spelled (gesture_database self) word c), msgs)"
proof (induction word arbitrary: fs c)
  case Nil
  show ?case by simp
next
  case (Cons ch rest)
  show ?case
  proof (cases "map_of (gesture_database self) [ch]")
    case None
    then show ?thesis
      using Cons.IH [of fs c] by (simp add: letter_step_unknown)
  next
    case (Some g)
    then have "g \<noteq> []" by (rule assms)
    then show ?thesis
      using Some Cons.IH [of "fs @ shifted c g" "c + (timestamp (last g) + 0.2)"]
      by (simp add: letter_step_known split: prod.splits)
  qed
qed

lemma tokens_zz: "split (upper ''ZZ'') = [''ZZ'']"
  by (simp add: split_def upper_def upper_char_def is_space_def)

text \<open>
  The composition of a token list as the specification words it: a token that names a
  gesture adds the frames of the gesture moved by the clock and advances the clock by the
  final timestamp of the gesture plus 0.5; any other token is spelled.
\<close>

fun composed ::
  "(string \<times> GestureFrame list) list \<Rightarrow> string list \<Rightarrow> real \<Rightarrow> GestureFrame list \<times> real" where
  "composed db [] clock = ([], clock)"
| "composed db (token # rest) clock =
     (case map_of db token of
        Some g \<Rightarrow>
          (case composed db rest (clock + (timestamp (last g) + 0.5)) of
             (fs, clock') \<Rightarrow> (shifted clock g @ fs, clock'))
      | None \<Rightarrow>
          (case spelled db token clock of
             (letters, clock1) \<Rightarrow>
               (case composed db rest clock1 of
                  (fs, clock') \<Rightarrow> (letters @ fs, clock'))))"

lemma compose_tokens:
  assumes "\<And>name g. map_of (gesture_database self) name = Some g \<Longrightarrow> g \<noteq> []"
  shows "for_each ws (word_step self) (fs, c, msgs) =
           Inr (fs @ fst (composed (gesture_database self) ws c),
                snd (composed (gesture_database self) ws c), msgs)"
proof (induction ws arbitrary: fs c)
  case Nil
  show ?case by simp
next
  case (Cons w ws)
  show ?case
  proof (cases "map_of (gesture_database self) w")
    case None
    have "word_step self w (fs, c, msgs) =
            Inr (fs @ fst (spelled (gesture_database self) w c),
                 snd (spelled (gesture_database self) w c), msgs)"
      using assms by (simp add: word_step_unknown [OF None] spell_letters)
    then show ?thesis
      using None Cons.IH [of "fs @ fst (spelled (gesture_database self) w c)"
          "snd (spelled (gesture_database self) w c)"]
      by (simp split: prod.splits)
  next
    case (Some g)
    then have "g \<noteq> []" by (rule assms)
    then have "word_step self w (fs, c, msgs) =
            Inr (fs @ shifted c g, c + (timestamp (last g) + 0.5), msgs)"
      by (rule word_step_known [OF Some])
    then show ?thesis
      using Some Cons.IH [of "fs @ shifted c g" "c + (timestamp (last g) + 0.5)"]
      by (simp split: prod.splits)
  qed
qed

lemma split_from_word:
  assumes "\<forall>c \<in> set w. \<not> is_space c"
  shows "split_from cur w = (if cur @ w = [] then [] else [cur @ w])"
  using assms by (induction w arbitrary: cur) simp_all

lemma split_from_space:
  assumes "is_space sp"
  shows "split_from cur (a @ sp # b) = split_from cur a @ split_from [] b"
  using assms by (induction a arbitrary: cur) simp_all

lemma split_word: "w \<noteq> [] \<Longrightarrow> \<forall>c \<in> set w. \<not> is_space c \<Longrightarrow> split w = [w]"
  by (simp add: split_def split_from_word)

lemma split_space: "is_space sp \<Longrightarrow> split (a @ sp # b) = split a @ split b"
  by (simp add: split_def split_from_space)

text \<open>Upper-casing by character codes: a lower-case letter moves down by 32, any other
  character stays.\<close>

lemma upper_char_letters:
  "list_all (\<lambda>c. upper_char c = char_of (of_char c - (32::nat))) ''abcdefghijklmnopqrstuvwxyz''"
  by code_simp

lemma upper_char_code:
  "upper_char c =
     (if c \<in> set ''abcdefghijklmnopqrstuvwxyz'' then char_of (of_char c - (32::nat)) else c)"
proof (cases "c \<in> set ''abcdefghijklmnopqrstuvwxyz''")
  case True
  have "\<forall>c \<in> set ''abcdefghijklmnopqrstuvwxyz''. upper_char c = char_of (of_char c - (32::nat))"
    using upper_char_letters by (simp only: list_all_iff)
  then have "upper_char c = char_of (of_char c - (32::nat))"
    using True by (rule bspec)
  then show ?thesis
    using True by (simp only: if_True)
next
  case False
  have "length ''abcdefghijklmnopqrstuvwxyz'' = length ''ABCDEFGHIJKLMNOPQRSTUVWXYZ''"
    by simp
  then have "map_of (zip ''abcdefghijklmnopqrstuvwxyz'' ''ABCDEFGHIJKLMNOPQRSTUVWXYZ'') c = None"
    using False by (simp only: map_of_zip_is_None not_False_eq_True)
  then show ?thesis
    using False unfolding upper_char_def by (simp only: option.case if_False)
qed

text \<open>
  C7. In a catalog whose gestures are non-empty, \<open>animate_text\<close> returns for every text what
  the composition of its tokens gives, the tokens being the maximal runs without white
  space of the text with its lower-case letters replaced by the upper-case ones; wherever a token names no gesture, the frames of the text
  are those of the tokens before it, then the spelling of the token from the clock these
  leave, then the frames of the tokens after it: \<open>word_step\<close> returns what \<open>spelled\<close> gives; a
  letter that names a gesture has the frames of the gesture appended, moved by the clock,
  and the clock advanced by the final timestamp plus 0.2; a letter that names none adds no
  frame and leaves the clock; and where \<open>Z\<close> is a gesture and \<open>ZZ\<close> is none, the text "ZZ" gives
  the frames of \<open>Z\<close> twice, the second time moved by the final timestamp of \<open>Z\<close> plus 0.2.
\<close>

theorem spell_unknown_word:
  assumes "\<forall>name g. map_of (gesture_database self) name = Some g \<longrightarrow> g \<noteq> []"
  shows "animate_text self text =
           Inr (fst (composed (gesture_database self) (split (upper text)) 0), []) \<and>
         (\<forall>ws1 ws2. split (upper text) = ws1 @ word # ws2 \<and>
              map_of (gesture_database self) word = None \<longrightarrow>
            fst (composed (gesture_database self) (split (upper text)) 0) =
              fst (composed (gesture_database self) ws1 0) @
              fst (spelled (gesture_database self) word
                     (snd (composed (gesture_database self) ws1 0))) @
              fst (composed (gesture_database self) ws2
                     (snd (spelled (gesture_database self) word
                        (snd (composed (gesture_database self) ws1 0)))))) \<and>
         upper text = map upper_char text \<and>
         (\<forall>ch. upper_char ch =
            (if ch \<in> set ''abcdefghijklmnopqrstuvwxyz''
             then char_of (of_char ch - (32::nat)) else ch)) \<and>
         split [] = [] \<and>
         (\<forall>w. w \<noteq> [] \<and> (\<forall>ch \<in> set w. \<not> is_space ch) \<longrightarrow> split w = [w]) \<and>
         (\<forall>a sp b. is_space sp \<longrightarrow> split (a @ sp # b) = split a @ split b) \<and>
         (map_of (gesture_database self) word = None \<longrightarrow>
            word_step self word (fs, c, msgs) =
              Inr (fs @ fst (spelled (gesture_database self) word c),
                   snd (spelled (gesture_database self) word c), msgs)) \<and>
         (map_of (gesture_database self) [letter] = None \<longrightarrow>
            letter_step self letter (fs, c, msgs) = Inr (fs, c, msgs)) \<and>
         (\<forall>g. map_of (gesture_database self) [letter] = Some g \<longrightarrow>
            letter_step self letter (fs, c, msgs) =
              Inr (fs @ shifted c g, c + (timestamp (last g) + 0.2), msgs)) \<and>
         (\<forall>z. map_of (gesture_database self) ''Z'' = Some z \<and>
              map_of (gesture_database self) ''ZZ'' = None \<longrightarrow>
            animate_text self ''ZZ'' =
              Inr (shifted 0 z @ shifted (0 + (timestamp (last z) + 0.2)) z, []))"
proof -
  have ne: "\<And>name g. map_of (gesture_database self) name = Some g \<Longrightarrow> g \<noteq> []"
    using assms by blast
  let ?db = "gesture_database self"
  have whole: "animate_text self t = Inr (fst (composed ?db (split (upper t)) 0), [])" for t
    using compose_tokens [of self "split (upper t)" "[]" 0 "[]", OF ne]
    by (simp add: animate_text_def then_do_def)
  have app: "composed ?db (ws1 @ ws2) k =
      (fst (composed ?db ws1 k) @ fst (composed ?db ws2 (snd (composed ?db ws1 k))),
       snd (composed ?db ws2 (snd (composed ?db ws1 k))))" for ws1 ws2 k
    by (induction ws1 arbitrary: k) (simp_all split: option.splits prod.splits)
  have cut: "fst (composed ?db (ws1 @ word # ws2) 0) =
              fst (composed ?db ws1 0) @
              fst (spelled ?db word (snd (composed ?db ws1 0))) @
              fst (composed ?db ws2 (snd (spelled ?db word (snd (composed ?db ws1 0)))))"
    if "map_of ?db word = None" for ws1 ws2
    using that by (simp add: app split: prod.splits)
  have w: "word_step self word (fs, c, msgs) =
              Inr (fs @ fst (spelled ?db word c), snd (spelled ?db word c), msgs)"
    if "map_of ?db word = None"
    using that ne by (simp add: word_step_unknown spell_letters)
  have l: "letter_step self letter (fs, c, msgs) =
              Inr (fs @ shifted c g, c + (timestamp (last g) + 0.2), msgs)"
    if "map_of ?db [letter] = Some g" for g
    using that ne by (simp add: letter_step_known)
  have zz: "animate_text self ''ZZ'' =
              Inr (shifted 0 z @ shifted (0 + (timestamp (last z) + 0.2)) z, [])"
    if "map_of ?db ''Z'' = Some z \<and> map_of ?db ''ZZ'' = None" for z
    using that by (simp add: whole tokens_zz)
  have s0: "split [] = []"
    by (simp add: split_def)
  have up: "\<forall>ch. upper_char ch =
            (if ch \<in> set ''abcdefghijklmnopqrstuvwxyz''
             then char_of (of_char ch - (32::nat)) else ch)"
    using upper_char_code by blast
  have rest: "animate_text self text =
           Inr (fst (composed ?db (split (upper text)) 0), []) \<and>
         (\<forall>ws1 ws2. split (upper text) = ws1 @ word # ws2 \<and> map_of ?db word = None \<longrightarrow>
            fst (composed ?db (split (upper text)) 0) =
              fst (composed ?db ws1 0) @
              fst (spelled ?db word (snd (composed ?db ws1 0))) @
              fst (composed ?db ws2 (snd (spelled ?db word (snd (composed ?db ws1 0)))))) \<and>
         upper text = map upper_char text \<and>
         split [] = [] \<and>
         (\<forall>w. w \<noteq> [] \<and> (\<forall>ch \<in> set w. \<not> is_space ch) \<longrightarrow> split w = [w]) \<and>
         (\<forall>a sp b. is_space sp \<longrightarrow> split (a @ sp # b) = split a @ split b) \<and>
         (map_of ?db word = None \<longrightarrow>
            word_step self word (fs, c, msgs) =
              Inr (fs @ fst (spelled ?db word c), snd (spelled ?db word c), msgs)) \<and>
         (map_of ?db [letter] = None \<longrightarrow>
            letter_step self letter (fs, c, msgs) = Inr (fs, c, msgs)) \<and>
         (\<forall>g. map_of ?db [letter] = Some g \<longrightarrow>
            letter_step self letter (fs, c, msgs) =
              Inr (fs @ shifted c g, c + (timestamp (last g) + 0.2), msgs)) \<and>
         (\<forall>z. map_of ?db ''Z'' = Some z \<and> map_of ?db ''ZZ'' = None \<longrightarrow>
            animate_text self ''ZZ'' =
              Inr (shifted 0 z @ shifted (0 + (timestamp (last z) + 0.2)) z, []))"
    using whole [of "text"] cut w l zz s0
    by (simp add: letter_step_unknown split_word split_space upper_def)
  show ?thesis
    using rest up by blast
qed

text \<open>An engine whose catalog holds the one letter gesture \<open>Z\<close>, of two frames.\<close>

definition letter_engine :: ISLAvatar where
  "letter_engine =
     \<lparr>skeleton = [(''hip'', 0)],
      gesture_database =
        [(''Z'', [\<lparr>timestamp = 0, joints = [(''hip'', 0)]\<rparr>,
                 \<lparr>timestamp = 1, joints = [(''hip'', 0)]\<rparr>])],
      current_pose = [], animation_speed = 1\<rparr>"

theorem spell_unknown_word_witness:
  "map_of (gesture_database letter_engine) ''ZQ'' = None \<and>
   map_of (gesture_database letter_engine) ''ZZ'' = None \<and>
   map_of (gesture_database letter_engine) ''Q'' = None \<and>
   map_of (gesture_database letter_engine) ''Z'' =
     Some (map (\<lambda>t. \<lparr>timestamp = t, joints = [(''hip'', 0)]\<rparr>) [0, 1]) \<and>
   split (upper ''zq z'') = [] @ ''ZQ'' # [''Z''] \<and>
   letter_step letter_engine (CHR ''Q'') ([], 3, []) = Inr ([], 3, []) \<and>
   word_step letter_engine ''ZQ'' ([], 3, []) =
     Inr (map (\<lambda>t. \<lparr>timestamp = t, joints = [(''hip'', 0)]\<rparr>) [3, 4], 4.2, []) \<and>
   animate_text letter_engine ''zq z'' =
     Inr (map (\<lambda>t. \<lparr>timestamp = t, joints = [(''hip'', 0)]\<rparr>) [0, 1, 1.2, 2.2], []) \<and>
   animate_text letter_engine ''Z Q'' =
     Inr (map (\<lambda>t. \<lparr>timestamp = t, joints = [(''hip'', 0)]\<rparr>) [0, 1], []) \<and>
   animate_text letter_engine ''ZZ'' =
     Inr (map (\<lambda>t. \<lparr>timestamp = t, joints = [(''hip'', 0)]\<rparr>) [0, 1, 1.2, 2.2], [])"
proof -
  have a: "\<forall>name g. map_of (gesture_database letter_engine) name = Some g \<longrightarrow> g \<noteq> []"
    by (auto simp: letter_engine_def split: if_splits)
  have db: "gesture_database letter_engine =
      [(''Z'', [\<lparr>timestamp = 0, joints = [(''hip'', 0)]\<rparr>,
                \<lparr>timestamp = 1, joints = [(''hip'', 0)]\<rparr>])]"
    by (simp add: letter_engine_def)
  have t1: "split (upper ''zq z'') = [''ZQ'', ''Z'']"
    and t2: "split (upper ''Z Q'') = [''Z'', ''Q'']"
    by (simp_all add: split_def upper_def upper_char_def is_space_def)
  note one = spell_unknown_word [OF a, of "''zq z''" "''ZQ''" "[]" 3 "[]" "CHR ''Q''"]
  note two = spell_unknown_word [OF a, of "''Z Q''" "''ZQ''" "[]" 3 "[]" "CHR ''Q''"]
  note tl = one [THEN conjunct2, THEN conjunct2, THEN conjunct2, THEN conjunct2,
      THEN conjunct2, THEN conjunct2, THEN conjunct2]
  have 1: "animate_text letter_engine ''zq z'' =
      Inr (fst (composed (gesture_database letter_engine) (split (upper ''zq z'')) 0), [])"
    using one by (rule conjunct1)
  have 2: "animate_text letter_engine ''Z Q'' =
      Inr (fst (composed (gesture_database letter_engine) (split (upper ''Z Q'')) 0), [])"
    using two by (rule conjunct1)
  show ?thesis
    using 1 2 tl [THEN conjunct1] tl [THEN conjunct2, THEN conjunct1]
      tl [THEN conjunct2, THEN conjunct2, THEN conjunct2]
    by (simp add: db t1 t2 shifted_def)
qed

subsection \<open>Export (C8)\<close>

lemma update_fresh: "k \<notin> fst ` set xs \<Longrightarrow> AList.update k v xs = xs @ [(k, v)]"
  by (induction xs) auto

lemma export_joints_fold:
  assumes "distinct (map fst xs)" and "fst ` set xs \<inter> fst ` set acc = {}"
  shows "fold (\<lambda>(joint_name, joint) frame_data.
             frame_data\<lparr>fd_joints := AList.update joint_name (v joint) (fd_joints frame_data)\<rparr>)
           xs \<lparr>fd_timestamp = t, fd_joints = acc\<rparr> =
         \<lparr>fd_timestamp = t, fd_joints = acc @ map (\<lambda>(joint_name, joint). (joint_name, v joint)) xs\<rparr>"
  using assms
proof (induction xs arbitrary: acc)
  case Nil
  show ?case by simp
next
  case (Cons x xs)
  obtain k a where x: "x = (k, a)" by (cases x)
  have fresh: "k \<notin> fst ` set acc"
    using Cons.prems(2) by (auto simp: x)
  have "fst ` set xs \<inter> fst ` set (acc @ [(k, v a)]) = {}"
    using Cons.prems by (auto simp: x)
  moreover have "distinct (map fst xs)"
    using Cons.prems(1) by simp
  ultimately show ?case
    using Cons.IH [of "acc @ [(k, v a)]"] by (simp add: x update_fresh [OF fresh])
qed

lemma export_frame_eq:
  assumes "distinct (map fst (joints frame))"
  shows "export_frame h frame =
           \<lparr>fd_timestamp = timestamp frame,
            fd_joints = map (\<lambda>(joint_name, joint).
                (joint_name, \<lparr>jd_position = position (h ! joint),
                              jd_rotation = rotation (h ! joint)\<rparr>)) (joints frame)\<rparr>"
  unfolding export_frame_def
  using export_joints_fold [OF assms, of "[]"
      "\<lambda>joint. \<lparr>jd_position = position (h ! joint), jd_rotation = rotation (h ! joint)\<rparr>"
      "timestamp frame"]
  by simp

lemma export_joints_timestamp:
  "fd_timestamp (fold (\<lambda>(joint_name, joint) frame_data.
             frame_data\<lparr>fd_joints := AList.update joint_name (v joint) (fd_joints frame_data)\<rparr>)
           xs fd) = fd_timestamp fd"
  by (induction xs arbitrary: fd) (simp_all add: case_prod_beta)

lemma export_frame_timestamp: "fd_timestamp (export_frame h frame) = timestamp frame"
  by (simp add: export_frame_def export_joints_timestamp)

lemma export_frames_fold:
  "fold (\<lambda>frame animation_data.
           animation_data\<lparr>ad_frames := ad_frames animation_data @ [f frame]\<rparr>) frames ad =
   ad\<lparr>ad_frames := ad_frames ad @ map f frames\<rparr>"
  by (induction frames arbitrary: ad) simp_all

text \<open>
  C8. For every frame sequence, the export in the format \<open>json\<close> is the serialisation of a
  record whose duration is the last frame's timestamp, or 0 when there is no frame, and
  whose frames are the exported frames in order, one for each input frame; an exported
  frame holds the timestamp of its frame and, for a frame whose joint names are distinct
  as the keys of a dictionary are, each joint name of the frame with the position and the
  rotation of its joint. In every other format the export logs a warning and returns the
  empty string; it raises in no format.
\<close>

theorem export_animation_formats:
  "export_animation h frames ''json'' =
     (JsonDumps \<lparr>ad_frames = map (export_frame h) frames,
                 ad_duration = (if frames = [] then 0 else timestamp (last frames))\<rparr>, []) \<and>
   (\<forall>frame \<in> set frames.
      fd_timestamp (export_frame h frame) = timestamp frame \<and>
      (distinct (map fst (joints frame)) \<longrightarrow>
         fd_joints (export_frame h frame) =
           map (\<lambda>(joint_name, joint).
                (joint_name, \<lparr>jd_position = position (h ! joint),
                              jd_rotation = rotation (h ! joint)\<rparr>)) (joints frame))) \<and>
   (format \<noteq> ''json'' \<longrightarrow>
      export_animation h frames format = (Str [], [unsupported_warning format]))"
  by (simp add: export_animation_def export_frames_fold export_frame_timestamp export_frame_eq)

theorem export_animation_formats_witness:
  "distinct (map fst rest_skeleton) \<and>
   export_animation rest_store [\<lparr>timestamp = 0, joints = rest_skeleton\<rparr>,
       \<lparr>timestamp = 2, joints = [(''hip'', 11), (''spine'', 10)]\<rparr>] ''json'' =
     (JsonDumps
        \<lparr>ad_frames =
           [export_frame rest_store \<lparr>timestamp = 0, joints = rest_skeleton\<rparr>,
            \<lparr>fd_timestamp = 2,
             fd_joints =
               [(''hip'', \<lparr>jd_position = (0, 0.9, 0), jd_rotation = (0, 0, 0)\<rparr>),
                (''spine'', \<lparr>jd_position = (0, 1.3, 0), jd_rotation = (0, 0, 0)\<rparr>)]\<rparr>],
         ad_duration = 2\<rparr>, []) \<and>
   export_animation rest_store [] ''json'' = (JsonDumps \<lparr>ad_frames = [], ad_duration = 0\<rparr>, []) \<and>
   ''bvh'' \<noteq> ''json'' \<and>
   export_animation rest_store [] ''bvh'' =
     (Str [], [''Export format '' @ [CHR 0x27] @ ''bvh'' @ [CHR 0x27] @ '' not supported yet''])"
proof -
  let ?f = "\<lparr>timestamp = 2, joints = [(''hip'', 11), (''spine'', 10)]\<rparr>"
  have "fd_joints (export_frame rest_store ?f) =
      [(''hip'', \<lparr>jd_position = (0, 0.9, 0), jd_rotation = (0, 0, 0)\<rparr>),
       (''spine'', \<lparr>jd_position = (0, 1.3, 0), jd_rotation = (0, 0, 0)\<rparr>)]"
    using export_animation_formats [of rest_store "[\<lparr>timestamp = 0, joints = rest_skeleton\<rparr>, ?f]" "''bvh''"]
    by (simp add: rest_store_def)
  moreover have "fd_timestamp (export_frame rest_store ?f) = 2"
    by (simp add: export_frame_timestamp)
  ultimately have "export_frame rest_store ?f =
       \<lparr>fd_timestamp = 2,
        fd_joints =
               [(''hip'', \<lparr>jd_position = (0, 0.9, 0), jd_rotation = (0, 0, 0)\<rparr>),
                (''spine'', \<lparr>jd_position = (0, 1.3, 0), jd_rotation = (0, 0, 0)\<rparr>)]\<rparr>"
    by (cases "export_frame rest_store ?f") simp
  then show ?thesis
    using export_animation_formats [of rest_store "[\<lparr>timestamp = 0, joints = rest_skeleton\<rparr>, ?f]" "''bvh''"]
      export_animation_formats [of rest_store "[]" "''bvh''"]
    by (simp add: unsupported_warning_def) (simp add: rest_skeleton_def)
qed

end
